theory Spec2Isabelle
  imports Complex_Main
begin

section \<open>Python numbers of the return calculator\<close>

text \<open>
  The calculator (\<^verbatim>\<open>src/calculator.py\<close>, class \<^verbatim>\<open>ReturnCalculator\<close>) works on
  Python \<^verbatim>\<open>float\<close> prices and \<^verbatim>\<open>int\<close> day counts and contract sizes. In this
  first model finite floats are read as exact reals (rounding, infinities and NaN are
  outside it; the double-precision model further down rounds), ints as \<^typ>\<open>int\<close>.
  What the operators do besides arithmetic is written out: \<^verbatim>\<open>/\<close> raises
  \<^verbatim>\<open>ZeroDivisionError\<close> on a zero divisor; an int too large for a float raises
  \<^verbatim>\<open>OverflowError\<close> when it meets a float in an operation; \<^verbatim>\<open>**\<close> raises
  \<^verbatim>\<open>OverflowError\<close> when the power is too large for a float, and on a negative base
  and a non-integral exponent yields a \<^verbatim>\<open>complex\<close>.
\<close>

datatype py_error = ZeroDivisionError | OverflowError

datatype py_num = PyFloat real | PyComplex complex

text \<open>
  A magnitude too large for a double. The largest finite double is \<open>2^1024 - 2^971\<close>;
  from the midpoint \<open>2^1024 - 2^970\<close> between it and \<open>2^1024\<close> on, a value rounds out
  of range.
\<close>

definition overflows :: "real \<Rightarrow> bool" where
  "overflows x \<longleftrightarrow> 2 ^ 1024 - 2 ^ 970 \<le> \<bar>x\<bar>"

text \<open>The conversion of an int operand of a float operation.\<close>

definition py_float :: "int \<Rightarrow> py_error + real" where
  "py_float n = (if overflows (real_of_int n) then Inl OverflowError else Inr (real_of_int n))"

definition py_truediv :: "real \<Rightarrow> real \<Rightarrow> py_error + real" where
  "py_truediv a b = (if b = 0 then Inl ZeroDivisionError else Inr (a / b))"

text \<open>
  \<^verbatim>\<open>x ** y\<close> on floats, in the order of the interpreter's case analysis: \<^verbatim>\<open>x ** 0\<close> is
  1; zero to a negative power raises, to a positive power is 0; a negative base with a
  non-integral exponent goes to the complex power, computed in polar form from modulus
  \<open>\<bar>x\<bar>\<close> and argument \<open>\<pi>\<close>; a negative base with an integral exponent is the power of
  \<open>\<bar>x\<bar>\<close>, negated when the exponent is odd. In each case the power of the modulus is
  computed by the C library, and a result out of range raises.
\<close>

definition py_pow :: "real \<Rightarrow> real \<Rightarrow> py_error + py_num" where
  "py_pow x y =
     (if y = 0 then Inr (PyFloat 1)
      else if x = 0 then (if y < 0 then Inl ZeroDivisionError else Inr (PyFloat 0))
      else if overflows (\<bar>x\<bar> powr y) then Inl OverflowError
      else if x < 0 then
        (if real_of_int \<lfloor>y\<rfloor> \<noteq> y then Inr (PyComplex (rcis (\<bar>x\<bar> powr y) (pi * y)))
         else if odd \<lfloor>y\<rfloor> then Inr (PyFloat (- (\<bar>x\<bar> powr y)))
         else Inr (PyFloat (\<bar>x\<bar> powr y)))
      else Inr (PyFloat (x powr y)))"

text \<open>\<^verbatim>\<open>z - k\<close> and \<^verbatim>\<open>z * k\<close> for a float or complex \<open>z\<close> and an int literal \<open>k\<close>.\<close>

fun py_sub :: "py_num \<Rightarrow> real \<Rightarrow> py_num" where
  "py_sub (PyFloat a) k = PyFloat (a - k)"
| "py_sub (PyComplex z) k = PyComplex (z - complex_of_real k)"

fun py_mul :: "py_num \<Rightarrow> real \<Rightarrow> py_num" where
  "py_mul (PyFloat a) k = PyFloat (a * k)"
| "py_mul (PyComplex z) k = PyComplex (z * complex_of_real k)"

section \<open>Result dictionaries\<close>

record put_metrics =
  capital_required :: real
  premium_received :: real
  return_pct :: real
  annualized_return :: py_num
  breakeven_price :: real
  downside_protection_pct :: real
  days_to_expiration :: int

record call_metrics =
  capital_invested :: real
  premium_received :: real
  potential_capital_gain :: real
  total_return :: real
  premium_return_pct :: real
  total_return_pct :: real
  annualized_return :: py_num
  upside_capture_pct :: real
  max_profit_price :: real
  days_to_expiration :: int

record wheel_metrics =
  put_phase :: put_metrics
  call_phase :: "call_metrics option"
  total_premium :: real
  total_return_pct :: real
  annualized_cycle_return :: py_num
  total_days :: int
  capital_required :: real

section \<open>The calculator\<close>

text \<open>
  \<^verbatim>\<open>calculate_put_return\<close>: the statements in source order; the first failing
  operation ends the call with its error. The contract size is converted where it first
  meets a float, in \<^verbatim>\<open>strike_price * contract_size\<close>, the days in \<^verbatim>\<open>365.0 / days\<close>.
\<close>

definition calculate_put_return ::
  "real \<Rightarrow> real \<Rightarrow> real \<Rightarrow> int \<Rightarrow> int \<Rightarrow> py_error + put_metrics" where
  "calculate_put_return stock_price strike_price premium dte contract_size =
     (case py_float contract_size of
        Inl e \<Rightarrow> Inl e
      | Inr fsize \<Rightarrow>
     (let capital_req = strike_price * fsize;
          total_prem = premium * fsize
      in case py_truediv total_prem capital_req of
           Inl e \<Rightarrow> Inl e
         | Inr q \<Rightarrow>
             (let ret_pct = q * 100
              in case (if dte > 0
                       then (case py_float dte of
                               Inl e \<Rightarrow> Inl e
                             | Inr days \<Rightarrow>
                       (case py_truediv 365 days of
                               Inl e \<Rightarrow> Inl e
                             | Inr periods_per_year \<Rightarrow>
                                 (case py_pow (1 + ret_pct / 100) periods_per_year of
                                    Inl e \<Rightarrow> Inl e
                                  | Inr v \<Rightarrow> Inr (py_mul (py_sub v 1) 100))))
                       else Inr (PyFloat 0)) of
                   Inl e \<Rightarrow> Inl e
                 | Inr annualized \<Rightarrow>
                     (let breakeven = strike_price - premium
                      in case py_truediv premium stock_price of
                           Inl e \<Rightarrow> Inl e
                         | Inr dq \<Rightarrow>
                             Inr \<lparr> put_metrics.capital_required = capital_req,
                                   put_metrics.premium_received = total_prem,
                                   put_metrics.return_pct = ret_pct,
                                   put_metrics.annualized_return = annualized,
                                   put_metrics.breakeven_price = breakeven,
                                   put_metrics.downside_protection_pct = dq * 100,
                                   put_metrics.days_to_expiration = dte \<rparr>))))"

text \<open>\<^verbatim>\<open>calculate_call_return\<close>.\<close>

definition calculate_call_return ::
  "real \<Rightarrow> real \<Rightarrow> real \<Rightarrow> real \<Rightarrow> int \<Rightarrow> int \<Rightarrow> py_error + call_metrics" where
  "calculate_call_return stock_price strike_price premium cost_basis dte contract_size =
     (case py_float contract_size of
        Inl e \<Rightarrow> Inl e
      | Inr fsize \<Rightarrow>
     (let capital_inv = cost_basis * fsize;
          total_prem = premium * fsize
      in case py_truediv total_prem capital_inv of
           Inl e \<Rightarrow> Inl e
         | Inr pq \<Rightarrow>
             (let prem_return_pct = pq * 100;
                  capital_gain = (if strike_price > cost_basis
                                  then (strike_price - cost_basis) * fsize
                                  else 0);
                  total_ret = (if strike_price > cost_basis
                               then total_prem + capital_gain
                               else total_prem)
              in case py_truediv total_ret capital_inv of
                   Inl e \<Rightarrow> Inl e
                 | Inr tq \<Rightarrow>
                     (let total_ret_pct = tq * 100
                      in case (if dte > 0
                               then (case py_float dte of
                                       Inl e \<Rightarrow> Inl e
                                     | Inr days \<Rightarrow>
                               (case py_truediv 365 days of
                                       Inl e \<Rightarrow> Inl e
                                     | Inr periods_per_year \<Rightarrow>
                                         (case py_pow (1 + total_ret_pct / 100) periods_per_year of
                                            Inl e \<Rightarrow> Inl e
                                          | Inr v \<Rightarrow> Inr (py_mul (py_sub v 1) 100))))
                               else Inr (PyFloat 0)) of
                           Inl e \<Rightarrow> Inl e
                         | Inr annualized \<Rightarrow>
                             (let max_profit = strike_price + premium
                              in case py_truediv (max_profit - stock_price) stock_price of
                                   Inl e \<Rightarrow> Inl e
                                 | Inr uq \<Rightarrow>
                                     Inr \<lparr> call_metrics.capital_invested = capital_inv,
                                           call_metrics.premium_received = total_prem,
                                           call_metrics.potential_capital_gain = capital_gain,
                                           call_metrics.total_return = total_ret,
                                           call_metrics.premium_return_pct = prem_return_pct,
                                           call_metrics.total_return_pct = total_ret_pct,
                                           call_metrics.annualized_return = annualized,
                                           call_metrics.upside_capture_pct = uq * 100,
                                           call_metrics.max_profit_price = max_profit,
                                           call_metrics.days_to_expiration = dte \<rparr>)))))"

text \<open>
  \<^verbatim>\<open>calculate_wheel_cycle_return\<close>. Both phases are called without a contract size, so
  with the default 100, and the cycle's capital is \<^verbatim>\<open>put_strike * 100\<close>.
\<close>

definition calculate_wheel_cycle_return ::
  "real \<Rightarrow> real \<Rightarrow> real \<Rightarrow> real \<Rightarrow> real \<Rightarrow> int \<Rightarrow> int \<Rightarrow> bool \<Rightarrow> py_error + wheel_metrics" where
  "calculate_wheel_cycle_return stock_price put_strike put_premium call_strike call_premium
       put_dte call_dte assignment_assumed =
     (case calculate_put_return stock_price put_strike put_premium put_dte 100 of
        Inl e \<Rightarrow> Inl e
      | Inr put_returns \<Rightarrow>
          if assignment_assumed then
            (let cost_basis = put_strike - put_premium
             in case calculate_call_return put_strike call_strike call_premium cost_basis
                       call_dte 100 of
                  Inl e \<Rightarrow> Inl e
                | Inr call_returns \<Rightarrow>
                    (let total_prem = put_metrics.premium_received put_returns
                                      + call_metrics.premium_received call_returns;
                         days = put_dte + call_dte;
                         capital_req = put_strike * 100
                     in case py_truediv total_prem capital_req of
                          Inl e \<Rightarrow> Inl e
                        | Inr q \<Rightarrow>
                            (let total_ret_pct = q * 100
                             in case (if days > 0
                                      then (case py_float days of
                                              Inl e \<Rightarrow> Inl e
                                            | Inr fdays \<Rightarrow>
                                      (case py_truediv 365 fdays of
                                              Inl e \<Rightarrow> Inl e
                                            | Inr periods_per_year \<Rightarrow>
                                                (case py_pow (1 + total_ret_pct / 100)
                                                        periods_per_year of
                                                   Inl e \<Rightarrow> Inl e
                                                 | Inr v \<Rightarrow> Inr (py_mul (py_sub v 1) 100))))
                                      else Inr (PyFloat 0)) of
                                  Inl e \<Rightarrow> Inl e
                                | Inr annualized \<Rightarrow>
                                    Inr \<lparr> wheel_metrics.put_phase = put_returns,
                                          wheel_metrics.call_phase = Some call_returns,
                                          wheel_metrics.total_premium = total_prem,
                                          wheel_metrics.total_return_pct = total_ret_pct,
                                          wheel_metrics.annualized_cycle_return = annualized,
                                          wheel_metrics.total_days = days,
                                          wheel_metrics.capital_required = capital_req \<rparr>)))
          else
            Inr \<lparr> wheel_metrics.put_phase = put_returns,
                  wheel_metrics.call_phase = None,
                  wheel_metrics.total_premium = put_metrics.premium_received put_returns,
                  wheel_metrics.total_return_pct = put_metrics.return_pct put_returns,
                  wheel_metrics.annualized_cycle_return =
                    put_metrics.annualized_return put_returns,
                  wheel_metrics.total_days = put_dte,
                  wheel_metrics.capital_required =
                    put_metrics.capital_required put_returns \<rparr>)"

text \<open>
  \<^verbatim>\<open>calculate_probability_of_profit\<close>. The standard normal distribution function of the
  statistics library is the parameter \<open>norm_cdf\<close>, and the two imports at the head of
  the function are taken to succeed. Past the guard \<open>dte > 0\<close> holds, so the divisor
  365.0 and the argument of the square root are in order; the conversion of the days to
  a float is taken to succeed too, which it does for days that fit a float.
\<close>

definition calculate_probability_of_profit ::
  "(real \<Rightarrow> real) \<Rightarrow> real \<Rightarrow> real \<Rightarrow> real \<Rightarrow> int \<Rightarrow> real" where
  "calculate_probability_of_profit norm_cdf stock_price breakeven implied_volatility dte =
     (if dte \<le> 0 then (if stock_price \<ge> breakeven then 1 else 0)
      else
        (let time_fraction = real_of_int dte / 365;
             expected_move = stock_price * implied_volatility * sqrt time_fraction;
             z_score = (if expected_move > 0
                        then (stock_price - breakeven) / expected_move
                        else 0)
         in norm_cdf z_score))"

section \<open>Annualization on its own\<close>

text \<open>
  \<^verbatim>\<open>annualize_return\<close> of \<^verbatim>\<open>src/utils.py\<close>: the annualization statement of the three
  calculator functions, there as a function of the return and the days.
\<close>

definition annualize_return :: "real \<Rightarrow> int \<Rightarrow> py_error + py_num" where
  "annualize_return ret_pct days =
     (if days \<le> 0 then Inr (PyFloat 0)
      else (case py_float days of
              Inl e \<Rightarrow> Inl e
            | Inr fdays \<Rightarrow>
           (case py_truediv 365 fdays of
              Inl e \<Rightarrow> Inl e
            | Inr periods_per_year \<Rightarrow>
                (case py_pow (1 + ret_pct / 100) periods_per_year of
                   Inl e \<Rightarrow> Inl e
                 | Inr v \<Rightarrow> Inr (py_mul (py_sub v 1) 100)))))"

text \<open>
  The compounding formula in the specification's words, read over the reals for a base
  that is not negative: \<open>((1 + r/100) ^ (365/d) - 1) \<times> 100\<close> when \<open>d > 0\<close>, and 0
  otherwise.
\<close>

definition annualize_spec :: "real \<Rightarrow> int \<Rightarrow> real" where
  "annualize_spec r d =
     (if d > 0 then ((1 + r / 100) powr (365 / real_of_int d) - 1) * 100 else 0)"

section \<open>Double precision\<close>

text \<open>
  The second model rounds: every float operation of the calculator returns the double
  nearest to the exact result, ties going to the even significand. A double has a
  significand of 53 bits; below \<open>2^-1022\<close> the spacing stays that of the last binade.
  Results beyond the largest double, which Python carries as infinities, are outside
  this model too.
\<close>

definition round_half_even :: "real \<Rightarrow> int" where
  "round_half_even x =
     (let n = \<lfloor>x\<rfloor>; r = x - real_of_int n
      in if r < 1 / 2 then n else if 1 / 2 < r then n + 1 else if even n then n else n + 1)"

definition binade :: "real \<Rightarrow> int" where
  "binade x = max \<lfloor>log 2 \<bar>x\<bar>\<rfloor> (- 1022)"

definition round_double :: "real \<Rightarrow> real" where
  "round_double x =
     (if x = 0 then 0
      else real_of_int (round_half_even (x / 2 powi (binade x - 52))) * 2 powi (binade x - 52))"

definition double_add :: "real \<Rightarrow> real \<Rightarrow> real" where
  "double_add a b = round_double (a + b)"

definition double_sub :: "real \<Rightarrow> real \<Rightarrow> real" where
  "double_sub a b = round_double (a - b)"

definition double_mul :: "real \<Rightarrow> real \<Rightarrow> real" where
  "double_mul a b = round_double (a * b)"

definition double_truediv :: "real \<Rightarrow> real \<Rightarrow> py_error + real" where
  "double_truediv a b = (if b = 0 then Inl ZeroDivisionError else Inr (round_double (a / b)))"

definition double_of_int :: "int \<Rightarrow> py_error + real" where
  "double_of_int n =
     (if overflows (real_of_int n) then Inl OverflowError
      else Inr (round_double (real_of_int n)))"

text \<open>
  The power, with the C library's result taken as the correctly rounded one, and
  \<^verbatim>\<open>z - k\<close> and \<^verbatim>\<open>z * k\<close> on doubles; for a complex \<open>z\<close> the int \<open>k\<close> becomes the
  complex number \<open>k + 0j\<close>.
\<close>

definition double_pow :: "real \<Rightarrow> real \<Rightarrow> py_error + py_num" where
  "double_pow x y =
     (case py_pow x y of
        Inl e \<Rightarrow> Inl e
      | Inr (PyFloat v) \<Rightarrow> Inr (PyFloat (round_double v))
      | Inr (PyComplex z) \<Rightarrow> Inr (PyComplex (Complex (round_double (Re z)) (round_double (Im z)))))"

fun double_sub_num :: "py_num \<Rightarrow> real \<Rightarrow> py_num" where
  "double_sub_num (PyFloat a) k = PyFloat (double_sub a k)"
| "double_sub_num (PyComplex z) k = PyComplex (Complex (double_sub (Re z) k) (Im z))"

fun double_mul_num :: "py_num \<Rightarrow> real \<Rightarrow> py_num" where
  "double_mul_num (PyFloat a) k = PyFloat (double_mul a k)"
| "double_mul_num (PyComplex z) k = PyComplex (Complex (double_mul (Re z) k) (double_mul (Im z) k))"

text \<open>The three calculator functions again, operation by operation on doubles.\<close>

definition calculate_put_return_double ::
  "real \<Rightarrow> real \<Rightarrow> real \<Rightarrow> int \<Rightarrow> int \<Rightarrow> py_error + put_metrics" where
  "calculate_put_return_double stock_price strike_price premium dte contract_size =
     (case double_of_int contract_size of
        Inl e \<Rightarrow> Inl e
      | Inr fsize \<Rightarrow>
     (let capital_req = double_mul strike_price fsize;
          total_prem = double_mul premium fsize
      in case double_truediv total_prem capital_req of
           Inl e \<Rightarrow> Inl e
         | Inr q \<Rightarrow>
             (let ret_pct = double_mul q 100
              in case (if dte > 0
                       then (case double_of_int dte of
                               Inl e \<Rightarrow> Inl e
                             | Inr days \<Rightarrow>
                       (case double_truediv 365 days of
                               Inl e \<Rightarrow> Inl e
                             | Inr periods_per_year \<Rightarrow>
                       (case double_truediv ret_pct 100 of
                               Inl e \<Rightarrow> Inl e
                             | Inr h \<Rightarrow>
                                 (case double_pow (double_add 1 h) periods_per_year of
                                    Inl e \<Rightarrow> Inl e
                                  | Inr v \<Rightarrow> Inr (double_mul_num (double_sub_num v 1) 100)))))
                       else Inr (PyFloat 0)) of
                   Inl e \<Rightarrow> Inl e
                 | Inr annualized \<Rightarrow>
                     (let breakeven = double_sub strike_price premium
                      in case double_truediv premium stock_price of
                           Inl e \<Rightarrow> Inl e
                         | Inr dq \<Rightarrow>
                             Inr \<lparr> put_metrics.capital_required = capital_req,
                                   put_metrics.premium_received = total_prem,
                                   put_metrics.return_pct = ret_pct,
                                   put_metrics.annualized_return = annualized,
                                   put_metrics.breakeven_price = breakeven,
                                   put_metrics.downside_protection_pct = double_mul dq 100,
                                   put_metrics.days_to_expiration = dte \<rparr>))))"

definition calculate_call_return_double ::
  "real \<Rightarrow> real \<Rightarrow> real \<Rightarrow> real \<Rightarrow> int \<Rightarrow> int \<Rightarrow> py_error + call_metrics" where
  "calculate_call_return_double stock_price strike_price premium cost_basis dte contract_size =
     (case double_of_int contract_size of
        Inl e \<Rightarrow> Inl e
      | Inr fsize \<Rightarrow>
     (let capital_inv = double_mul cost_basis fsize;
          total_prem = double_mul premium fsize
      in case double_truediv total_prem capital_inv of
           Inl e \<Rightarrow> Inl e
         | Inr pq \<Rightarrow>
             (let prem_return_pct = double_mul pq 100;
                  capital_gain = (if strike_price > cost_basis
                                  then double_mul (double_sub strike_price cost_basis) fsize
                                  else 0);
                  total_ret = (if strike_price > cost_basis
                               then double_add total_prem capital_gain
                               else total_prem)
              in case double_truediv total_ret capital_inv of
                   Inl e \<Rightarrow> Inl e
                 | Inr tq \<Rightarrow>
                     (let total_ret_pct = double_mul tq 100
                      in case (if dte > 0
                               then (case double_of_int dte of
                                       Inl e \<Rightarrow> Inl e
                                     | Inr days \<Rightarrow>
                               (case double_truediv 365 days of
                                       Inl e \<Rightarrow> Inl e
                                     | Inr periods_per_year \<Rightarrow>
                               (case double_truediv total_ret_pct 100 of
                                       Inl e \<Rightarrow> Inl e
                                     | Inr h \<Rightarrow>
                                         (case double_pow (double_add 1 h) periods_per_year of
                                            Inl e \<Rightarrow> Inl e
                                          | Inr v \<Rightarrow>
                                              Inr (double_mul_num (double_sub_num v 1) 100)))))
                               else Inr (PyFloat 0)) of
                           Inl e \<Rightarrow> Inl e
                         | Inr annualized \<Rightarrow>
                             (let max_profit = double_add strike_price premium
                              in case double_truediv (double_sub max_profit stock_price)
                                        stock_price of
                                   Inl e \<Rightarrow> Inl e
                                 | Inr uq \<Rightarrow>
                                     Inr \<lparr> call_metrics.capital_invested = capital_inv,
                                           call_metrics.premium_received = total_prem,
                                           call_metrics.potential_capital_gain = capital_gain,
                                           call_metrics.total_return = total_ret,
                                           call_metrics.premium_return_pct = prem_return_pct,
                                           call_metrics.total_return_pct = total_ret_pct,
                                           call_metrics.annualized_return = annualized,
                                           call_metrics.upside_capture_pct = double_mul uq 100,
                                           call_metrics.max_profit_price = max_profit,
                                           call_metrics.days_to_expiration = dte \<rparr>)))))"

definition calculate_wheel_cycle_return_double ::
  "real \<Rightarrow> real \<Rightarrow> real \<Rightarrow> real \<Rightarrow> real \<Rightarrow> int \<Rightarrow> int \<Rightarrow> bool \<Rightarrow> py_error + wheel_metrics" where
  "calculate_wheel_cycle_return_double stock_price put_strike put_premium call_strike
       call_premium put_dte call_dte assignment_assumed =
     (case calculate_put_return_double stock_price put_strike put_premium put_dte 100 of
        Inl e \<Rightarrow> Inl e
      | Inr put_returns \<Rightarrow>
          if assignment_assumed then
            (let cost_basis = double_sub put_strike put_premium
             in case calculate_call_return_double put_strike call_strike call_premium cost_basis
                       call_dte 100 of
                  Inl e \<Rightarrow> Inl e
                | Inr call_returns \<Rightarrow>
                    (let total_prem = double_add (put_metrics.premium_received put_returns)
                                        (call_metrics.premium_received call_returns);
                         days = put_dte + call_dte;
                         capital_req = double_mul put_strike 100
                     in case double_truediv total_prem capital_req of
                          Inl e \<Rightarrow> Inl e
                        | Inr q \<Rightarrow>
                            (let total_ret_pct = double_mul q 100
                             in case (if days > 0
                                      then (case double_of_int days of
                                              Inl e \<Rightarrow> Inl e
                                            | Inr fdays \<Rightarrow>
                                      (case double_truediv 365 fdays of
                                              Inl e \<Rightarrow> Inl e
                                            | Inr periods_per_year \<Rightarrow>
                                      (case double_truediv total_ret_pct 100 of
                                              Inl e \<Rightarrow> Inl e
                                            | Inr h \<Rightarrow>
                                                (case double_pow (double_add 1 h)
                                                        periods_per_year of
                                                   Inl e \<Rightarrow> Inl e
                                                 | Inr v \<Rightarrow>
                                                     Inr (double_mul_num
                                                            (double_sub_num v 1) 100)))))
                                      else Inr (PyFloat 0)) of
                                  Inl e \<Rightarrow> Inl e
                                | Inr annualized \<Rightarrow>
                                    Inr \<lparr> wheel_metrics.put_phase = put_returns,
                                          wheel_metrics.call_phase = Some call_returns,
                                          wheel_metrics.total_premium = total_prem,
                                          wheel_metrics.total_return_pct = total_ret_pct,
                                          wheel_metrics.annualized_cycle_return = annualized,
                                          wheel_metrics.total_days = days,
                                          wheel_metrics.capital_required = capital_req \<rparr>)))
          else
            Inr \<lparr> wheel_metrics.put_phase = put_returns,
                  wheel_metrics.call_phase = None,
                  wheel_metrics.total_premium = put_metrics.premium_received put_returns,
                  wheel_metrics.total_return_pct = put_metrics.return_pct put_returns,
                  wheel_metrics.annualized_cycle_return =
                    put_metrics.annualized_return put_returns,
                  wheel_metrics.total_days = put_dte,
                  wheel_metrics.capital_required =
                    put_metrics.capital_required put_returns \<rparr>)"

section \<open>Auxiliary facts\<close>

subsection \<open>Ranges and powers\<close>

text \<open>
  Magnitudes up to \<open>2^1000\<close> are far inside the float range. A base between 0 and 2
  with an exponent of at most 365 stays there, and that is the base of every
  annualization whose return does not exceed the capital in magnitude.
\<close>

lemma overflows_bound: "\<bar>x\<bar> \<le> 2 ^ 1000 \<Longrightarrow> \<not> overflows x"
proof -
  have "(2::real) ^ 1000 < 2 ^ 1024 - 2 ^ 970" by simp
  then show "\<bar>x\<bar> \<le> 2 ^ 1000 \<Longrightarrow> \<not> overflows x"
    by (simp add: overflows_def)
qed

lemma py_float_small: "\<bar>n\<bar> \<le> 1000000 \<Longrightarrow> py_float n = Inr (real_of_int n)"
proof -
  assume "\<bar>n\<bar> \<le> 1000000"
  then have "\<bar>real_of_int n\<bar> \<le> 1000000" by linarith
  moreover have "(1000000::real) \<le> 2 ^ 1000" by simp
  ultimately have "\<not> overflows (real_of_int n)"
    by (intro overflows_bound) linarith
  then show ?thesis by (simp add: py_float_def)
qed

lemma not_overflows_small: "\<not> overflows 0" "\<not> overflows 30" "\<not> overflows 60" "\<not> overflows 100"
  by (rule overflows_bound, simp)+

lemma powr_safe:
  assumes "0 \<le> x" and "x \<le> 2" and "0 < y" and "y \<le> 365"
  shows "\<not> overflows (x powr y)"
proof -
  have "x powr y \<le> 2 powr y"
    using assms by (intro powr_mono2) simp_all
  also have "\<dots> \<le> 2 powr 365"
    using assms by (intro powr_mono) simp_all
  also have "\<dots> = 2 ^ 365"
    by (simp add: powr_realpow [symmetric])
  also have "\<dots> \<le> (2::real) ^ 1000" by simp
  finally have "\<bar>x powr y\<bar> \<le> 2 ^ 1000" by simp
  then show ?thesis by (rule overflows_bound)
qed

lemma py_pow_nonneg_base:
  "0 \<le> x \<Longrightarrow> 0 < y \<Longrightarrow> py_pow x y = Inr v \<Longrightarrow> v = PyFloat (x powr y)"
  by (auto simp: py_pow_def split: if_splits)

lemma py_pow_safe:
  "0 \<le> x \<Longrightarrow> x \<le> 2 \<Longrightarrow> 0 < y \<Longrightarrow> y \<le> 365 \<Longrightarrow> py_pow x y = Inr (PyFloat (x powr y))"
  using powr_safe [of x y] by (simp add: py_pow_def)

lemma ratio_base:
  fixes a b :: real
  assumes "\<bar>a\<bar> \<le> \<bar>b\<bar>" and "b \<noteq> 0"
  shows "0 \<le> 1 + a / b * 100 / 100" and "1 + a / b * 100 / 100 \<le> 2"
proof -
  have "\<bar>a / b\<bar> = \<bar>a\<bar> / \<bar>b\<bar>" by (rule abs_divide)
  also have "\<dots> \<le> 1" using assms by (simp add: divide_le_eq_1)
  finally have "\<bar>a / b\<bar> \<le> 1" .
  then have "- 1 \<le> a / b" and "a / b \<le> 1" by linarith+
  then show "0 \<le> 1 + a / b * 100 / 100" and "1 + a / b * 100 / 100 \<le> 2" by simp_all
qed

subsection \<open>Annualization\<close>

text \<open>
  Without days the annualization is 0. With days it is the power it is written as,
  whenever it returns; on a base that is not negative that is the real power. It does
  return when the base is between 0 and 2 and the days fit a float.
\<close>

lemma annualize_return_nonpos: "d \<le> 0 \<Longrightarrow> annualize_return x d = Inr (PyFloat 0)"
  by (simp add: annualize_return_def)

lemma annualize_return_pos:
  assumes "0 < d" and "annualize_return x d = Inr a"
  shows "\<exists>v. py_pow (1 + x / 100) (365 / real_of_int d) = Inr v \<and> a = py_mul (py_sub v 1) 100"
  using assms
  by (auto simp: annualize_return_def py_truediv_def py_float_def split: sum.splits if_splits)

lemma annualize_return_nonneg_base:
  assumes "0 < d" and "0 \<le> 1 + x / 100" and "annualize_return x d = Inr a"
  shows "a = PyFloat (annualize_spec x d)"
proof -
  from annualize_return_pos [OF assms(1,3)] obtain v
    where v: "py_pow (1 + x / 100) (365 / real_of_int d) = Inr v"
      and a: "a = py_mul (py_sub v 1) 100" by blast
  have "v = PyFloat ((1 + x / 100) powr (365 / real_of_int d))"
    using assms(1) by (intro py_pow_nonneg_base [OF assms(2) _ v]) simp
  with a assms(1) show ?thesis by (simp add: annualize_spec_def)
qed

lemma annualize_return_safe:
  assumes "0 < d" and "\<not> overflows (real_of_int d)" and "0 \<le> 1 + x / 100" and "1 + x / 100 \<le> 2"
  shows "annualize_return x d = Inr (PyFloat (annualize_spec x d))"
proof -
  from assms(1) have "1 \<le> real_of_int d" by linarith
  then have y: "0 < 365 / real_of_int d" "365 / real_of_int d \<le> 365"
    by (simp_all add: divide_le_eq)
  from assms(1,2) py_pow_safe [OF assms(3,4) y] show ?thesis
    by (simp add: annualize_return_def py_truediv_def py_float_def annualize_spec_def)
qed

subsection \<open>The three functions, statement by statement\<close>

text \<open>
  The annualization statement of the three calculator functions is the body of
  \<^verbatim>\<open>annualize_return\<close>; a conversion or a division followed by the rest of the
  function either raises or continues with its value.
\<close>

lemma annualize_block:
  "(if 0 < d
    then (case py_float d of
            Inl e \<Rightarrow> Inl e
          | Inr days \<Rightarrow>
         (case py_truediv 365 days of
            Inl e \<Rightarrow> Inl e
          | Inr periods_per_year \<Rightarrow>
              (case py_pow (1 + x / 100) periods_per_year of
                 Inl e \<Rightarrow> Inl e
               | Inr v \<Rightarrow> Inr (py_mul (py_sub v 1) 100))))
    else Inr (PyFloat 0)) = annualize_return x d"
  by (simp add: annualize_return_def)

lemma py_truediv_case:
  "(case py_truediv a b of Inl e \<Rightarrow> Inl e | Inr q \<Rightarrow> f q)
     = (if b = 0 then Inl ZeroDivisionError else f (a / b))"
  by (simp add: py_truediv_def)

lemma py_float_case:
  "(case py_float n of Inl e \<Rightarrow> Inl e | Inr q \<Rightarrow> f q)
     = (if overflows (real_of_int n) then Inl OverflowError else f (real_of_int n))"
  by (simp add: py_float_def)

lemma put_return_unfold:
  "calculate_put_return s k p d cs =
     (if overflows (real_of_int cs) then Inl OverflowError
      else if k * real_of_int cs = 0 then Inl ZeroDivisionError
      else case annualize_return (p * real_of_int cs / (k * real_of_int cs) * 100) d of
             Inl e \<Rightarrow> Inl e
           | Inr a \<Rightarrow>
               if s = 0 then Inl ZeroDivisionError
               else Inr \<lparr> put_metrics.capital_required = k * real_of_int cs,
                          put_metrics.premium_received = p * real_of_int cs,
                          put_metrics.return_pct = p * real_of_int cs / (k * real_of_int cs) * 100,
                          put_metrics.annualized_return = a,
                          put_metrics.breakeven_price = k - p,
                          put_metrics.downside_protection_pct = p / s * 100,
                          put_metrics.days_to_expiration = d \<rparr>)"
  unfolding calculate_put_return_def Let_def annualize_block
  by (simp add: py_truediv_case py_float_case cong: sum.case_cong)

lemma call_return_unfold:
  "calculate_call_return s k p cb d cs =
     (if overflows (real_of_int cs) then Inl OverflowError
      else if cb * real_of_int cs = 0 then Inl ZeroDivisionError
      else case annualize_return
                  ((if k > cb then p * real_of_int cs + (k - cb) * real_of_int cs
                    else p * real_of_int cs) / (cb * real_of_int cs) * 100) d of
             Inl e \<Rightarrow> Inl e
           | Inr a \<Rightarrow>
               if s = 0 then Inl ZeroDivisionError
               else Inr \<lparr> call_metrics.capital_invested = cb * real_of_int cs,
                          call_metrics.premium_received = p * real_of_int cs,
                          call_metrics.potential_capital_gain =
                            (if k > cb then (k - cb) * real_of_int cs else 0),
                          call_metrics.total_return =
                            (if k > cb then p * real_of_int cs + (k - cb) * real_of_int cs
                             else p * real_of_int cs),
                          call_metrics.premium_return_pct =
                            p * real_of_int cs / (cb * real_of_int cs) * 100,
                          call_metrics.total_return_pct =
                            (if k > cb then p * real_of_int cs + (k - cb) * real_of_int cs
                             else p * real_of_int cs) / (cb * real_of_int cs) * 100,
                          call_metrics.annualized_return = a,
                          call_metrics.upside_capture_pct = (k + p - s) / s * 100,
                          call_metrics.max_profit_price = k + p,
                          call_metrics.days_to_expiration = d \<rparr>)"
  unfolding calculate_call_return_def Let_def annualize_block
  by (simp add: py_truediv_case py_float_case cong: sum.case_cong)

lemma wheel_unfold:
  "calculate_wheel_cycle_return s ps pp ck cp pd cd asg =
     (case calculate_put_return s ps pp pd 100 of
        Inl e \<Rightarrow> Inl e
      | Inr put_returns \<Rightarrow>
          if asg then
            (case calculate_call_return ps ck cp (ps - pp) cd 100 of
               Inl e \<Rightarrow> Inl e
             | Inr call_returns \<Rightarrow>
                 if ps * 100 = 0 then Inl ZeroDivisionError
                 else case annualize_return
                             ((put_metrics.premium_received put_returns
                               + call_metrics.premium_received call_returns) / (ps * 100) * 100)
                             (pd + cd) of
                        Inl e \<Rightarrow> Inl e
                      | Inr a \<Rightarrow>
                          Inr \<lparr> wheel_metrics.put_phase = put_returns,
                                wheel_metrics.call_phase = Some call_returns,
                                wheel_metrics.total_premium =
                                  put_metrics.premium_received put_returns
                                  + call_metrics.premium_received call_returns,
                                wheel_metrics.total_return_pct =
                                  (put_metrics.premium_received put_returns
                                   + call_metrics.premium_received call_returns)
                                  / (ps * 100) * 100,
                                wheel_metrics.annualized_cycle_return = a,
                                wheel_metrics.total_days = pd + cd,
                                wheel_metrics.capital_required = ps * 100 \<rparr>)
          else
            Inr \<lparr> wheel_metrics.put_phase = put_returns,
                  wheel_metrics.call_phase = None,
                  wheel_metrics.total_premium = put_metrics.premium_received put_returns,
                  wheel_metrics.total_return_pct = put_metrics.return_pct put_returns,
                  wheel_metrics.annualized_cycle_return =
                    put_metrics.annualized_return put_returns,
                  wheel_metrics.total_days = pd,
                  wheel_metrics.capital_required =
                    put_metrics.capital_required put_returns \<rparr>)"
  unfolding calculate_wheel_cycle_return_def Let_def annualize_block
  by (simp add: py_truediv_case split: sum.splits)

subsection \<open>Results and errors of the put and call calculations\<close>

text \<open>
  What a returned dictionary holds, when a call certainly raises, and a range of inputs
  on which it certainly returns: divisors other than zero, a contract size and days
  that fit a float, and either no days left or a return of at most the capital in
  magnitude, so that the power cannot overflow.
\<close>

lemma put_return_fields:
  assumes "calculate_put_return s k p d cs = Inr r"
  shows "k * real_of_int cs \<noteq> 0" and "s \<noteq> 0"
    and "put_metrics.capital_required r = k * real_of_int cs"
    and "put_metrics.premium_received r = p * real_of_int cs"
    and "put_metrics.return_pct r = p * real_of_int cs / (k * real_of_int cs) * 100"
    and "put_metrics.breakeven_price r = k - p"
    and "put_metrics.downside_protection_pct r = p / s * 100"
    and "put_metrics.days_to_expiration r = d"
    and "annualize_return (put_metrics.return_pct r) d = Inr (put_metrics.annualized_return r)"
  using assms unfolding put_return_unfold
  by (auto split: if_splits sum.splits)

lemma put_return_raises:
  assumes "k * real_of_int cs = 0 \<or> s = 0"
  shows "isl (calculate_put_return s k p d cs)"
proof (cases "calculate_put_return s k p d cs")
  case (Inr r)
  from put_return_fields(1,2) [OF Inr] assms show ?thesis by simp
qed simp

lemma put_return_zero_capital:
  assumes "k * real_of_int cs = 0" and "\<not> overflows (real_of_int cs)"
  shows "calculate_put_return s k p d cs = Inl ZeroDivisionError"
  using assms by (simp add: put_return_unfold)

lemma put_return_total:
  assumes "k * real_of_int cs \<noteq> 0" and "s \<noteq> 0" and "\<not> overflows (real_of_int cs)"
      and "d \<le> 0 \<or> (\<not> overflows (real_of_int d) \<and> \<bar>p\<bar> \<le> \<bar>k\<bar>)"
  shows "\<exists>r. calculate_put_return s k p d cs = Inr r"
proof -
  let ?x = "p * real_of_int cs / (k * real_of_int cs) * 100"
  have "\<exists>a. annualize_return ?x d = Inr a"
  proof (cases "d \<le> 0")
    case True
    then show ?thesis by (simp add: annualize_return_nonpos)
  next
    case False
    with assms(4) have d: "0 < d" "\<not> overflows (real_of_int d)" and pk: "\<bar>p\<bar> \<le> \<bar>k\<bar>"
      by simp_all
    from pk have "\<bar>p * real_of_int cs\<bar> \<le> \<bar>k * real_of_int cs\<bar>"
      by (simp add: abs_mult mult_right_mono)
    from ratio_base [OF this assms(1)] annualize_return_safe [OF d, of ?x]
    show ?thesis by blast
  qed
  then show ?thesis
    using assms(1-3) unfolding put_return_unfold by auto
qed

lemma put_return_zero_stock:
  assumes "s = 0" and "\<not> overflows (real_of_int cs)"
      and "d \<le> 0 \<or> (\<not> overflows (real_of_int d) \<and> \<bar>p\<bar> \<le> \<bar>k\<bar>)"
  shows "calculate_put_return s k p d cs = Inl ZeroDivisionError"
proof (cases "k * real_of_int cs = 0")
  case True
  then show ?thesis using assms(2) by (rule put_return_zero_capital)
next
  case False
  let ?x = "p * real_of_int cs / (k * real_of_int cs) * 100"
  have "\<exists>a. annualize_return ?x d = Inr a"
  proof (cases "d \<le> 0")
    case True
    then show ?thesis by (simp add: annualize_return_nonpos)
  next
    case d: False
    with assms(3) have d: "0 < d" "\<not> overflows (real_of_int d)" and pk: "\<bar>p\<bar> \<le> \<bar>k\<bar>"
      by simp_all
    from pk have "\<bar>p * real_of_int cs\<bar> \<le> \<bar>k * real_of_int cs\<bar>"
      by (simp add: abs_mult mult_right_mono)
    from ratio_base [OF this False] annualize_return_safe [OF d, of ?x]
    show ?thesis by blast
  qed
  then show ?thesis
    using False assms(1,2) unfolding put_return_unfold by auto
qed

lemma call_return_fields:
  assumes "calculate_call_return s k p cb d cs = Inr r"
  shows "cb * real_of_int cs \<noteq> 0" and "s \<noteq> 0"
    and "call_metrics.capital_invested r = cb * real_of_int cs"
    and "call_metrics.premium_received r = p * real_of_int cs"
    and "call_metrics.potential_capital_gain r
           = (if k > cb then (k - cb) * real_of_int cs else 0)"
    and "call_metrics.total_return r
           = (if k > cb then p * real_of_int cs + (k - cb) * real_of_int cs
              else p * real_of_int cs)"
    and "call_metrics.premium_return_pct r = p * real_of_int cs / (cb * real_of_int cs) * 100"
    and "call_metrics.total_return_pct r
           = call_metrics.total_return r / (cb * real_of_int cs) * 100"
    and "call_metrics.max_profit_price r = k + p"
    and "call_metrics.upside_capture_pct r = (k + p - s) / s * 100"
    and "call_metrics.days_to_expiration r = d"
    and "annualize_return (call_metrics.total_return_pct r) d
           = Inr (call_metrics.annualized_return r)"
  using assms unfolding call_return_unfold
  by (auto split: if_splits sum.splits)

lemma call_return_total:
  assumes "cb * real_of_int cs \<noteq> 0" and "s \<noteq> 0" and "\<not> overflows (real_of_int cs)"
      and "d \<le> 0 \<or> (\<not> overflows (real_of_int d)
             \<and> \<bar>if k > cb then p * real_of_int cs + (k - cb) * real_of_int cs
                 else p * real_of_int cs\<bar> \<le> \<bar>cb * real_of_int cs\<bar>)"
  shows "\<exists>r. calculate_call_return s k p cb d cs = Inr r"
proof -
  let ?t = "if k > cb then p * real_of_int cs + (k - cb) * real_of_int cs
            else p * real_of_int cs"
  let ?x = "?t / (cb * real_of_int cs) * 100"
  have "\<exists>a. annualize_return ?x d = Inr a"
  proof (cases "d \<le> 0")
    case True
    then show ?thesis by (simp add: annualize_return_nonpos)
  next
    case False
    with assms(4) have d: "0 < d" "\<not> overflows (real_of_int d)"
      and t: "\<bar>?t\<bar> \<le> \<bar>cb * real_of_int cs\<bar>"
      by simp_all
    from ratio_base [OF t assms(1)] annualize_return_safe [OF d, of ?x]
    show ?thesis by blast
  qed
  then show ?thesis
    using assms(1-3) unfolding call_return_unfold by auto
qed

subsection \<open>Results of the full wheel cycle\<close>

text \<open>
  With assignment assumed, a returned cycle carries both phases and the aggregates
  computed from the two premiums, the put strike and the two day counts.
\<close>

lemma wheel_full_fields:
  assumes "calculate_wheel_cycle_return s ps pp ck cp pd cd True = Inr w"
  shows "calculate_put_return s ps pp pd 100 = Inr (wheel_metrics.put_phase w)"
    and "\<exists>c. wheel_metrics.call_phase w = Some c
             \<and> calculate_call_return ps ck cp (ps - pp) cd 100 = Inr c
             \<and> wheel_metrics.total_premium w
                 = put_metrics.premium_received (wheel_metrics.put_phase w)
                   + call_metrics.premium_received c"
    and "wheel_metrics.total_premium w = pp * 100 + cp * 100"
    and "wheel_metrics.total_days w = pd + cd"
    and "wheel_metrics.capital_required w = ps * 100"
    and "ps \<noteq> 0"
    and "wheel_metrics.total_return_pct w
           = wheel_metrics.total_premium w / wheel_metrics.capital_required w * 100"
    and "annualize_return (wheel_metrics.total_return_pct w) (pd + cd)
           = Inr (wheel_metrics.annualized_cycle_return w)"
proof -
  from assms obtain p where p: "calculate_put_return s ps pp pd 100 = Inr p"
    unfolding wheel_unfold by (auto split: sum.splits)
  from assms p obtain c where c: "calculate_call_return ps ck cp (ps - pp) cd 100 = Inr c"
    unfolding wheel_unfold by (auto split: sum.splits)
  have pr: "put_metrics.premium_received p = pp * 100"
    using put_return_fields(4)[OF p] by simp
  have cr: "call_metrics.premium_received c = cp * 100"
    using call_return_fields(4)[OF c] by simp
  from assms have ps: "ps \<noteq> 0"
    unfolding wheel_unfold p c by (auto split: if_splits)
  define tp where "tp = put_metrics.premium_received p + call_metrics.premium_received c"
  define x where "x = tp / (ps * 100) * 100"
  have "calculate_wheel_cycle_return s ps pp ck cp pd cd True =
          (case annualize_return x (pd + cd) of
             Inl e \<Rightarrow> Inl e
           | Inr a \<Rightarrow>
               Inr \<lparr> wheel_metrics.put_phase = p,
                     wheel_metrics.call_phase = Some c,
                     wheel_metrics.total_premium = tp,
                     wheel_metrics.total_return_pct = x,
                     wheel_metrics.annualized_cycle_return = a,
                     wheel_metrics.total_days = pd + cd,
                     wheel_metrics.capital_required = ps * 100 \<rparr>)"
    unfolding wheel_unfold p c x_def tp_def using ps by simp
  with assms obtain a where a: "annualize_return x (pd + cd) = Inr a"
    and w: "w = \<lparr> wheel_metrics.put_phase = p,
                  wheel_metrics.call_phase = Some c,
                  wheel_metrics.total_premium = tp,
                  wheel_metrics.total_return_pct = x,
                  wheel_metrics.annualized_cycle_return = a,
                  wheel_metrics.total_days = pd + cd,
                  wheel_metrics.capital_required = ps * 100 \<rparr>"
    by (auto split: sum.splits)
  have tp: "tp = pp * 100 + cp * 100"
    unfolding tp_def pr cr by simp
  show "calculate_put_return s ps pp pd 100 = Inr (wheel_metrics.put_phase w)"
    using p w by simp
  show "\<exists>c. wheel_metrics.call_phase w = Some c
             \<and> calculate_call_return ps ck cp (ps - pp) cd 100 = Inr c
             \<and> wheel_metrics.total_premium w
                 = put_metrics.premium_received (wheel_metrics.put_phase w)
                   + call_metrics.premium_received c"
    using c w by (simp add: tp_def)
  show "wheel_metrics.total_premium w = pp * 100 + cp * 100" using w tp by simp
  show "wheel_metrics.total_days w = pd + cd" using w by simp
  show "wheel_metrics.capital_required w = ps * 100" using w by simp
  show "ps \<noteq> 0" by (rule ps)
  show "wheel_metrics.total_return_pct w
           = wheel_metrics.total_premium w / wheel_metrics.capital_required w * 100"
    unfolding w x_def by simp
  show "annualize_return (wheel_metrics.total_return_pct w) (pd + cd)
           = Inr (wheel_metrics.annualized_cycle_return w)"
    unfolding w using a by simp
qed

lemma wheel_full_total:
  assumes "calculate_put_return s ps pp pd 100 = Inr p"
      and "calculate_call_return ps ck cp (ps - pp) cd 100 = Inr c"
      and "pd + cd \<le> 0 \<or> (\<not> overflows (real_of_int (pd + cd))
             \<and> \<bar>pp * 100 + cp * 100\<bar> \<le> \<bar>ps * 100\<bar>)"
  shows "\<exists>w. calculate_wheel_cycle_return s ps pp ck cp pd cd True = Inr w"
proof -
  from put_return_fields(1) [OF assms(1)] have ps: "ps * 100 \<noteq> 0" by simp
  have pr: "put_metrics.premium_received p = pp * 100"
    using put_return_fields(4)[OF assms(1)] by simp
  have cr: "call_metrics.premium_received c = cp * 100"
    using call_return_fields(4)[OF assms(2)] by simp
  define tp where "tp = put_metrics.premium_received p + call_metrics.premium_received c"
  define x where "x = tp / (ps * 100) * 100"
  have tp: "tp = pp * 100 + cp * 100"
    unfolding tp_def pr cr by simp
  have "\<exists>a. annualize_return x (pd + cd) = Inr a"
  proof (cases "pd + cd \<le> 0")
    case True
    then show ?thesis by (simp add: annualize_return_nonpos)
  next
    case False
    with assms(3) have d: "0 < pd + cd" "\<not> overflows (real_of_int (pd + cd))"
      and t: "\<bar>tp\<bar> \<le> \<bar>ps * 100\<bar>"
      by (simp_all add: tp)
    from ratio_base [OF t ps] annualize_return_safe [OF d, of x]
    show ?thesis unfolding x_def by blast
  qed
  then obtain a where a: "annualize_return x (pd + cd) = Inr a" by blast
  have "calculate_wheel_cycle_return s ps pp ck cp pd cd True =
          (case annualize_return x (pd + cd) of
             Inl e \<Rightarrow> Inl e
           | Inr a \<Rightarrow>
               Inr \<lparr> wheel_metrics.put_phase = p,
                     wheel_metrics.call_phase = Some c,
                     wheel_metrics.total_premium = tp,
                     wheel_metrics.total_return_pct = x,
                     wheel_metrics.annualized_cycle_return = a,
                     wheel_metrics.total_days = pd + cd,
                     wheel_metrics.capital_required = ps * 100 \<rparr>)"
    unfolding wheel_unfold assms(1) assms(2) x_def tp_def using ps by simp
  with a show ?thesis by simp
qed

subsection \<open>The examples of the test suite\<close>

text \<open>
  \<^verbatim>\<open>calculate_put_return(100, 95, 2, 30)\<close> and
  \<^verbatim>\<open>calculate_call_return(100, 105, 1.5, 98, 30)\<close>, the inputs of
  \<^verbatim>\<open>tests/test_analyzer.py\<close>, evaluated in full.
\<close>

lemma put_example:
  "calculate_put_return 100 95 2 30 100 =
     Inr \<lparr> put_metrics.capital_required = 9500,
           put_metrics.premium_received = 200,
           put_metrics.return_pct = 40 / 19,
           put_metrics.annualized_return = PyFloat (annualize_spec (40 / 19) 30),
           put_metrics.breakeven_price = 93,
           put_metrics.downside_protection_pct = 2,
           put_metrics.days_to_expiration = 30 \<rparr>"
proof -
  have "annualize_return (40 / 19) 30 = Inr (PyFloat (annualize_spec (40 / 19) 30))"
    by (rule annualize_return_safe) (simp_all add: not_overflows_small)
  then show ?thesis
    by (simp add: put_return_unfold not_overflows_small)
qed

lemma call_example:
  "calculate_call_return 100 105 (3 / 2) 98 30 100 =
     Inr \<lparr> call_metrics.capital_invested = 9800,
           call_metrics.premium_received = 150,
           call_metrics.potential_capital_gain = 700,
           call_metrics.total_return = 850,
           call_metrics.premium_return_pct = 75 / 49,
           call_metrics.total_return_pct = 425 / 49,
           call_metrics.annualized_return = PyFloat (annualize_spec (425 / 49) 30),
           call_metrics.upside_capture_pct = 13 / 2,
           call_metrics.max_profit_price = 213 / 2,
           call_metrics.days_to_expiration = 30 \<rparr>"
proof -
  have "annualize_return (425 / 49) 30 = Inr (PyFloat (annualize_spec (425 / 49) 30))"
    by (rule annualize_return_safe) (simp_all add: not_overflows_small)
  then show ?thesis
    by (simp add: call_return_unfold not_overflows_small)
qed

subsection \<open>Rounding to a double\<close>

text \<open>
  A number between \<open>2^e\<close> and \<open>2^(e+1)\<close> is rounded on the grid of spacing
  \<open>2^(e-52)\<close>; concrete roundings below are computed from this.
\<close>

lemma binade_eq:
  assumes "2 powi e \<le> \<bar>x\<bar>" and "\<bar>x\<bar> < 2 powi (e + 1)" and "- 1022 \<le> e"
  shows "binade x = e"
proof -
  have "(0::real) < 2 powi e" by simp
  with assms(1) have pos: "0 < \<bar>x\<bar>" by linarith
  have a: "(2::real) powr real_of_int e = 2 powi e"
    and b: "(2::real) powr real_of_int (e + 1) = 2 powi (e + 1)"
    by (simp_all only: powr_real_of_int' [of 2, simplified])
  have iff: "(\<lfloor>log 2 \<bar>x\<bar>\<rfloor> = e)
               = (2 powr real_of_int e \<le> \<bar>x\<bar> \<and> \<bar>x\<bar> < 2 powr real_of_int (e + 1))"
    using pos by (intro floor_log_eq_powr_iff) simp_all
  have "\<lfloor>log 2 \<bar>x\<bar>\<rfloor> = e"
    unfolding iff a b using assms(1,2) by blast
  with assms(3) show ?thesis by (simp add: binade_def)
qed

lemma round_double_eval:
  assumes "2 powi e \<le> \<bar>x\<bar>" and "\<bar>x\<bar> < 2 powi (e + 1)" and "- 1022 \<le> e"
  shows "round_double x = real_of_int (round_half_even (x / 2 powi (e - 52))) * 2 powi (e - 52)"
proof -
  have "(0::real) < 2 powi e" by simp
  with assms(1) have "0 < \<bar>x\<bar>" by linarith
  then have "x \<noteq> 0" by simp
  with binade_eq [OF assms] show ?thesis by (simp add: round_double_def)
qed

lemma double_of_int_100: "double_of_int 100 = Inr 100"
proof -
  have "round_double 100 = 100"
    by (subst round_double_eval [where e = 6]) (simp_all add: round_half_even_def Let_def)
  then show ?thesis by (simp add: double_of_int_def not_overflows_small)
qed

subsection \<open>The calculator on doubles, at or past expiration\<close>

text \<open>
  With no days left the double-precision functions skip the power, and return whenever
  their two divisors are not zero.
\<close>

lemma put_return_double_expired:
  assumes "d \<le> 0" and "double_of_int cs = Inr f" and "double_mul k f \<noteq> 0" and "s \<noteq> 0"
  shows "calculate_put_return_double s k p d cs =
     Inr \<lparr> put_metrics.capital_required = double_mul k f,
           put_metrics.premium_received = double_mul p f,
           put_metrics.return_pct =
             double_mul (round_double (double_mul p f / double_mul k f)) 100,
           put_metrics.annualized_return = PyFloat 0,
           put_metrics.breakeven_price = double_sub k p,
           put_metrics.downside_protection_pct = double_mul (round_double (p / s)) 100,
           put_metrics.days_to_expiration = d \<rparr>"
  using assms by (simp add: calculate_put_return_double_def Let_def double_truediv_def)

lemma call_return_double_expired:
  assumes "d \<le> 0" and "double_of_int cs = Inr f" and "double_mul cb f \<noteq> 0" and "s \<noteq> 0"
  shows "calculate_call_return_double s k p cb d cs =
     Inr \<lparr> call_metrics.capital_invested = double_mul cb f,
           call_metrics.premium_received = double_mul p f,
           call_metrics.potential_capital_gain =
             (if k > cb then double_mul (double_sub k cb) f else 0),
           call_metrics.total_return =
             (if k > cb then double_add (double_mul p f) (double_mul (double_sub k cb) f)
              else double_mul p f),
           call_metrics.premium_return_pct =
             double_mul (round_double (double_mul p f / double_mul cb f)) 100,
           call_metrics.total_return_pct =
             double_mul (round_double
               ((if k > cb then double_add (double_mul p f) (double_mul (double_sub k cb) f)
                 else double_mul p f) / double_mul cb f)) 100,
           call_metrics.annualized_return = PyFloat 0,
           call_metrics.upside_capture_pct =
             double_mul (round_double (double_sub (double_add k p) s / s)) 100,
           call_metrics.max_profit_price = double_add k p,
           call_metrics.days_to_expiration = d \<rparr>"
  using assms by (simp add: calculate_call_return_double_def Let_def double_truediv_def)

lemma wheel_cycle_double_expired:
  assumes "calculate_put_return_double s ps pp pd 100 = Inr p"
      and "calculate_call_return_double ps ck cp (double_sub ps pp) cd 100 = Inr c"
      and "pd + cd \<le> 0" and "double_mul ps 100 \<noteq> 0"
  shows "calculate_wheel_cycle_return_double s ps pp ck cp pd cd True =
     Inr \<lparr> wheel_metrics.put_phase = p,
           wheel_metrics.call_phase = Some c,
           wheel_metrics.total_premium =
             double_add (put_metrics.premium_received p) (call_metrics.premium_received c),
           wheel_metrics.total_return_pct =
             double_mul (round_double
               (double_add (put_metrics.premium_received p) (call_metrics.premium_received c)
                  / double_mul ps 100)) 100,
           wheel_metrics.annualized_cycle_return = PyFloat 0,
           wheel_metrics.total_days = pd + cd,
           wheel_metrics.capital_required = double_mul ps 100 \<rparr>"
  using assms by (simp add: calculate_wheel_cycle_return_double_def Let_def double_truediv_def)


section \<open>Properties\<close>

subsection \<open>Annualization\<close>

text \<open>
  C1. Whenever \<^verbatim>\<open>calculate_put_return\<close> returns, its \<^verbatim>\<open>annualized_return\<close> is
  \<open>((1 + return_pct/100) ** (365/d) - 1) * 100\<close> if the days to expiration \<open>d\<close> are
  positive, and 0 otherwise; \<^verbatim>\<open>calculate_call_return\<close> does the same with
  \<^verbatim>\<open>total_return_pct\<close>. The power is Python's \<^verbatim>\<open>**\<close>; where the base
  \<open>1 + return_pct/100\<close> is not negative it is the real power, so the result is the
  float of the compounding formula.
\<close>

theorem annualized_return_compounding:
  "(calculate_put_return s k p d cs = Inr r \<longrightarrow>
      (0 < d \<longrightarrow>
         (\<exists>v. py_pow (1 + put_metrics.return_pct r / 100) (365 / real_of_int d) = Inr v
              \<and> put_metrics.annualized_return r = py_mul (py_sub v 1) 100)
         \<and> (0 \<le> 1 + put_metrics.return_pct r / 100 \<longrightarrow>
              put_metrics.annualized_return r
                = PyFloat (((1 + put_metrics.return_pct r / 100) powr (365 / real_of_int d) - 1) * 100)))
      \<and> (d \<le> 0 \<longrightarrow> put_metrics.annualized_return r = PyFloat 0))
   \<and> (calculate_call_return s' k' p' cb d' cs' = Inr c \<longrightarrow>
      (0 < d' \<longrightarrow>
         (\<exists>v. py_pow (1 + call_metrics.total_return_pct c / 100) (365 / real_of_int d') = Inr v
              \<and> call_metrics.annualized_return c = py_mul (py_sub v 1) 100)
         \<and> (0 \<le> 1 + call_metrics.total_return_pct c / 100 \<longrightarrow>
              call_metrics.annualized_return c
                = PyFloat (((1 + call_metrics.total_return_pct c / 100) powr (365 / real_of_int d') - 1) * 100)))
      \<and> (d' \<le> 0 \<longrightarrow> call_metrics.annualized_return c = PyFloat 0))"
proof (intro conjI impI)
  assume r: "calculate_put_return s k p d cs = Inr r"
  note a = put_return_fields(9)[OF r]
  { assume "0 < d"
    then show "\<exists>v. py_pow (1 + put_metrics.return_pct r / 100) (365 / real_of_int d) = Inr v
              \<and> put_metrics.annualized_return r = py_mul (py_sub v 1) 100"
      using annualize_return_pos[OF _ a] by simp }
  { assume "0 < d" and "0 \<le> 1 + put_metrics.return_pct r / 100"
    then show "put_metrics.annualized_return r
                = PyFloat (((1 + put_metrics.return_pct r / 100) powr (365 / real_of_int d) - 1) * 100)"
      using annualize_return_nonneg_base[of d "put_metrics.return_pct r" "put_metrics.annualized_return r"] a
      by (simp add: annualize_spec_def) }
  { assume "d \<le> 0"
    then show "put_metrics.annualized_return r = PyFloat 0"
      using annualize_return_nonpos[of d "put_metrics.return_pct r"] a by simp }
next
  assume c: "calculate_call_return s' k' p' cb d' cs' = Inr c"
  note a = call_return_fields(12)[OF c]
  { assume "0 < d'"
    then show "\<exists>v. py_pow (1 + call_metrics.total_return_pct c / 100) (365 / real_of_int d') = Inr v
              \<and> call_metrics.annualized_return c = py_mul (py_sub v 1) 100"
      using annualize_return_pos[OF _ a] by simp }
  { assume "0 < d'" and "0 \<le> 1 + call_metrics.total_return_pct c / 100"
    then show "call_metrics.annualized_return c
                = PyFloat (((1 + call_metrics.total_return_pct c / 100) powr (365 / real_of_int d') - 1) * 100)"
      using annualize_return_nonneg_base[of d' "call_metrics.total_return_pct c" "call_metrics.annualized_return c"] a
      by (simp add: annualize_spec_def) }
  { assume "d' \<le> 0"
    then show "call_metrics.annualized_return c = PyFloat 0"
      using annualize_return_nonpos[of d' "call_metrics.total_return_pct c"] a by simp }
qed

text \<open>
  The formula at the inputs of the test suite: both calls return, with 30 days to
  expiration and the bases \<open>1 + (40/19)/100\<close> and \<open>1 + (425/49)/100\<close>; with 0 days
  both annualized returns are 0.
\<close>

theorem annualized_return_compounding_witness:
  "calculate_put_return 100 95 2 30 100 = Inr (projr (calculate_put_return 100 95 2 30 100))
   \<and> (0::int) < 30
   \<and> put_metrics.annualized_return (projr (calculate_put_return 100 95 2 30 100))
       = PyFloat (((1 + (40 / 19) / 100) powr (365 / 30) - 1) * 100)
   \<and> calculate_call_return 100 105 (3 / 2) 98 30 100
       = Inr (projr (calculate_call_return 100 105 (3 / 2) 98 30 100))
   \<and> call_metrics.annualized_return (projr (calculate_call_return 100 105 (3 / 2) 98 30 100))
       = PyFloat (((1 + (425 / 49) / 100) powr (365 / 30) - 1) * 100)
   \<and> calculate_put_return 100 95 2 0 100 = Inr (projr (calculate_put_return 100 95 2 0 100))
   \<and> (0::int) \<le> 0
   \<and> put_metrics.annualized_return (projr (calculate_put_return 100 95 2 0 100)) = PyFloat 0
   \<and> calculate_call_return 100 105 (3 / 2) 98 0 100
       = Inr (projr (calculate_call_return 100 105 (3 / 2) 98 0 100))
   \<and> call_metrics.annualized_return (projr (calculate_call_return 100 105 (3 / 2) 98 0 100))
       = PyFloat 0"
proof -
  have p0: "calculate_put_return 100 95 2 0 100 = Inr (projr (calculate_put_return 100 95 2 0 100))"
    using put_return_total [where k = 95 and cs = 100 and s = 100 and p = 2 and d = 0]
    by (auto simp: not_overflows_small)
  have c0: "calculate_call_return 100 105 (3 / 2) 98 0 100
       = Inr (projr (calculate_call_return 100 105 (3 / 2) 98 0 100))"
    using call_return_total
            [where cb = 98 and cs = 100 and s = 100 and k = 105 and p = "3 / 2" and d = 0]
    by (auto simp: not_overflows_small)
  from annualized_return_compounding
          [of 100 95 2 30 100 "projr (calculate_put_return 100 95 2 30 100)"
              100 105 "3 / 2" 98 30 100 "projr (calculate_call_return 100 105 (3 / 2) 98 30 100)"]
       annualized_return_compounding
          [of 100 95 2 0 100 "projr (calculate_put_return 100 95 2 0 100)"
              100 105 "3 / 2" 98 0 100 "projr (calculate_call_return 100 105 (3 / 2) 98 0 100)"]
       p0 c0
  show ?thesis
    by (simp add: put_example call_example)
qed

subsection \<open>Zero denominators of the put calculation\<close>

text \<open>
  C2, as the code has it. \<^verbatim>\<open>calculate_put_return\<close> does not define its
  zero-denominator cases: whenever \<^verbatim>\<open>capital_required\<close> is zero (zero strike or zero
  contract size) or the stock price is zero, the call raises and returns nothing. The
  error is \<^verbatim>\<open>ZeroDivisionError\<close> for a zero capital (with a contract size that fits a
  float), and for a zero stock price when the annualization before it does not raise:
  with no days left, or with a premium of at most the strike in magnitude. Whenever
  the call returns, both denominators are other than zero,
  \<open>return_pct = premium_received / capital_required * 100\<close> and
  \<open>downside_protection_pct = premium / stock_price * 100\<close>.
\<close>

theorem put_return_zero_denominator_raises:
  "(k * real_of_int cs = 0 \<or> s = 0 \<longrightarrow> isl (calculate_put_return s k p d cs))
   \<and> (k * real_of_int cs = 0 \<and> \<not> overflows (real_of_int cs) \<longrightarrow>
        calculate_put_return s k p d cs = Inl ZeroDivisionError)
   \<and> (s = 0 \<and> \<not> overflows (real_of_int cs)
        \<and> (d \<le> 0 \<or> (\<not> overflows (real_of_int d) \<and> \<bar>p\<bar> \<le> \<bar>k\<bar>)) \<longrightarrow>
        calculate_put_return s k p d cs = Inl ZeroDivisionError)
   \<and> (calculate_put_return s k p d cs = Inr r \<longrightarrow>
        k * real_of_int cs \<noteq> 0 \<and> s \<noteq> 0
        \<and> put_metrics.return_pct r
            = put_metrics.premium_received r / put_metrics.capital_required r * 100
        \<and> put_metrics.downside_protection_pct r = p / s * 100)"
proof (intro conjI impI)
  assume "k * real_of_int cs = 0 \<or> s = 0"
  then show "isl (calculate_put_return s k p d cs)"
    by (rule put_return_raises)
next
  assume "k * real_of_int cs = 0 \<and> \<not> overflows (real_of_int cs)"
  then show "calculate_put_return s k p d cs = Inl ZeroDivisionError"
    by (intro put_return_zero_capital) simp_all
next
  assume "s = 0 \<and> \<not> overflows (real_of_int cs)
        \<and> (d \<le> 0 \<or> (\<not> overflows (real_of_int d) \<and> \<bar>p\<bar> \<le> \<bar>k\<bar>))"
  then show "calculate_put_return s k p d cs = Inl ZeroDivisionError"
    by (intro put_return_zero_stock) simp_all
next
  assume r: "calculate_put_return s k p d cs = Inr r"
  note f = put_return_fields[OF r]
  show "k * real_of_int cs \<noteq> 0" by (rule f(1))
  show "s \<noteq> 0" by (rule f(2))
  show "put_metrics.return_pct r
          = put_metrics.premium_received r / put_metrics.capital_required r * 100"
    by (simp only: f(3) f(4) f(5))
  show "put_metrics.downside_protection_pct r = p / s * 100" by (rule f(7))
qed

text \<open>
  The cases at concrete inputs: zero strike, zero stock price, and neither.
\<close>

theorem put_return_zero_denominator_raises_witness:
  "isl (calculate_put_return 100 0 2 30 100)
   \<and> calculate_put_return 100 0 2 30 100 = Inl ZeroDivisionError
   \<and> calculate_put_return 0 95 2 30 100 = Inl ZeroDivisionError
   \<and> calculate_put_return 100 95 2 30 100
       = Inr (projr (calculate_put_return 100 95 2 30 100))
   \<and> put_metrics.return_pct (projr (calculate_put_return 100 95 2 30 100))
       = put_metrics.premium_received (projr (calculate_put_return 100 95 2 30 100))
         / put_metrics.capital_required (projr (calculate_put_return 100 95 2 30 100)) * 100
   \<and> put_metrics.downside_protection_pct (projr (calculate_put_return 100 95 2 30 100))
       = 2 / 100 * 100"
  using put_return_zero_denominator_raises
          [of 0 100 100 2 30 "projr (calculate_put_return 100 95 2 30 100)"]
        put_return_zero_denominator_raises
          [of 95 100 0 2 30 "projr (calculate_put_return 100 95 2 30 100)"]
        put_return_zero_denominator_raises
          [of 95 100 100 2 30 "projr (calculate_put_return 100 95 2 30 100)"]
  by (simp add: not_overflows_small put_example)

text \<open>
  A result with \<open>return_pct = 0\<close> for a zero strike, or with
  \<open>downside_protection_pct = 0\<close> for a zero stock price, does not exist: both calls
  end in the division error.
\<close>

theorem put_return_zero_denominator_counterexample:
  "calculate_put_return 100 0 2 30 100 = Inl ZeroDivisionError
   \<and> calculate_put_return 0 95 2 30 100 = Inl ZeroDivisionError"
proof -
  have "annualize_return (40 / 19) 30 = Inr (PyFloat (annualize_spec (40 / 19) 30))"
    by (rule annualize_return_safe) (simp_all add: not_overflows_small)
  then show ?thesis
    by (simp add: put_return_unfold not_overflows_small)
qed

subsection \<open>Negative strikes\<close>

text \<open>
  C3, as the code has it. \<^verbatim>\<open>calculate_put_return\<close> does not validate the strike.
  Whenever a call with a negative strike returns, its result has
  \<open>capital_required = strike * contract_size\<close>, negative for a positive contract size,
  and \<open>breakeven_price = strike - premium\<close>. And it does return when the contract size
  is other than zero and fits a float, the stock price is other than zero, and either
  no days are left or the premium is at most the strike in magnitude.
\<close>

theorem put_return_negative_strike_accepted:
  assumes "k < 0"
  shows "(calculate_put_return s k p d cs = Inr r \<longrightarrow>
            put_metrics.capital_required r = k * real_of_int cs
            \<and> put_metrics.breakeven_price r = k - p
            \<and> (0 < cs \<longrightarrow> put_metrics.capital_required r < 0))
         \<and> (cs \<noteq> 0 \<and> \<not> overflows (real_of_int cs) \<and> s \<noteq> 0
              \<and> (d \<le> 0 \<or> (\<not> overflows (real_of_int d) \<and> \<bar>p\<bar> \<le> \<bar>k\<bar>)) \<longrightarrow>
            (\<exists>r'. calculate_put_return s k p d cs = Inr r'))"
proof (intro conjI impI)
  assume r: "calculate_put_return s k p d cs = Inr r"
  note f = put_return_fields[OF r]
  show "put_metrics.capital_required r = k * real_of_int cs" by (rule f(3))
  show "put_metrics.breakeven_price r = k - p" by (rule f(6))
  { assume "0 < cs"
    with assms show "put_metrics.capital_required r < 0"
      unfolding f(3) by (simp add: mult_neg_pos) }
next
  assume a: "cs \<noteq> 0 \<and> \<not> overflows (real_of_int cs) \<and> s \<noteq> 0
              \<and> (d \<le> 0 \<or> (\<not> overflows (real_of_int d) \<and> \<bar>p\<bar> \<le> \<bar>k\<bar>))"
  with assms have "k * real_of_int cs \<noteq> 0" by simp
  with a show "\<exists>r'. calculate_put_return s k p d cs = Inr r'"
    by (intro put_return_total) simp_all
qed

text \<open>
  At strike \<open>-95\<close>, premium 2 and 30 days: the call returns, with the capital
  \<open>-9500\<close>.
\<close>

theorem put_return_negative_strike_accepted_witness:
  "(- 95 :: real) < 0
   \<and> calculate_put_return 100 (- 95) 2 30 100
       = Inr (projr (calculate_put_return 100 (- 95) 2 30 100))
   \<and> put_metrics.capital_required (projr (calculate_put_return 100 (- 95) 2 30 100))
       = - 95 * real_of_int 100
   \<and> put_metrics.breakeven_price (projr (calculate_put_return 100 (- 95) 2 30 100))
       = - 95 - 2
   \<and> put_metrics.capital_required (projr (calculate_put_return 100 (- 95) 2 30 100)) < 0"
proof -
  have n: "(- 95 :: real) < 0" by simp
  have "\<exists>r'. calculate_put_return 100 (- 95) 2 30 100 = Inr r'"
    using put_return_negative_strike_accepted [OF n, of 100 2 30 100]
    by (simp add: not_overflows_small)
  then have e: "calculate_put_return 100 (- 95) 2 30 100
       = Inr (projr (calculate_put_return 100 (- 95) 2 30 100))"
    by auto
  from put_return_negative_strike_accepted
         [OF n, of 100 2 30 100 "projr (calculate_put_return 100 (- 95) 2 30 100)"] e
  show ?thesis by simp
qed

text \<open>
  The put of the test suite with the strike negated is not rejected: the call returns
  the dictionary below, with a negative capital requirement.
\<close>

theorem put_return_negative_strike_counterexample:
  "calculate_put_return 100 (- 95) 2 30 100 =
     Inr \<lparr> put_metrics.capital_required = - 9500,
           put_metrics.premium_received = 200,
           put_metrics.return_pct = - (40 / 19),
           put_metrics.annualized_return = PyFloat (annualize_spec (- (40 / 19)) 30),
           put_metrics.breakeven_price = - 97,
           put_metrics.downside_protection_pct = 2,
           put_metrics.days_to_expiration = 30 \<rparr>"
proof -
  have "annualize_return (- (40 / 19)) 30 = Inr (PyFloat (annualize_spec (- (40 / 19)) 30))"
    by (rule annualize_return_safe) (simp_all add: not_overflows_small)
  then show ?thesis
    by (simp add: put_return_unfold not_overflows_small)
qed

subsection \<open>The full wheel cycle\<close>

text \<open>
  C4, as the code has it. Whenever \<^verbatim>\<open>calculate_wheel_cycle_return\<close> returns with
  assignment assumed, its call phase is \<^verbatim>\<open>calculate_call_return\<close> at stock price
  \<open>put_strike\<close> and cost basis \<open>put_strike - put_premium\<close>, and the aggregates are
  \<open>total_premium = put_premium * 100 + call_premium * 100\<close>, the sum of the
  \<open>premium_received\<close> of the two phases, \<open>total_days = put_dte + call_dte\<close>,
  \<open>capital_required = put_strike * 100\<close>,
  \<open>total_return_pct = total_premium / capital_required * 100\<close> and the compounding
  formula on \<open>total_return_pct\<close> over \<open>total_days\<close> (100 being the contract size of both
  phases). The cycle \<open>(100, 95, 2.0, 100, 1.5, 30, 30)\<close> returns with total premium 350,
  60 days and capital 9500.
\<close>

theorem wheel_full_cycle_aggregates:
  "(calculate_wheel_cycle_return s ps pp ck cp pd cd True = Inr w \<longrightarrow>
      calculate_put_return s ps pp pd 100 = Inr (wheel_metrics.put_phase w)
      \<and> (\<exists>c. wheel_metrics.call_phase w = Some c
             \<and> calculate_call_return ps ck cp (ps - pp) cd 100 = Inr c
             \<and> wheel_metrics.total_premium w
                 = put_metrics.premium_received (wheel_metrics.put_phase w)
                   + call_metrics.premium_received c)
      \<and> wheel_metrics.total_premium w = pp * 100 + cp * 100
      \<and> wheel_metrics.total_days w = pd + cd
      \<and> wheel_metrics.capital_required w = ps * 100
      \<and> wheel_metrics.total_return_pct w
          = wheel_metrics.total_premium w / wheel_metrics.capital_required w * 100
      \<and> (0 < pd + cd \<longrightarrow>
           (\<exists>v. py_pow (1 + wheel_metrics.total_return_pct w / 100)
                    (365 / real_of_int (pd + cd)) = Inr v
                \<and> wheel_metrics.annualized_cycle_return w = py_mul (py_sub v 1) 100)
           \<and> (0 \<le> 1 + wheel_metrics.total_return_pct w / 100 \<longrightarrow>
                wheel_metrics.annualized_cycle_return w
                  = PyFloat (((1 + wheel_metrics.total_return_pct w / 100)
                                powr (365 / real_of_int (pd + cd)) - 1) * 100)))
      \<and> (pd + cd \<le> 0 \<longrightarrow> wheel_metrics.annualized_cycle_return w = PyFloat 0))
   \<and> (\<exists>w'. calculate_wheel_cycle_return 100 95 2 100 (3 / 2) 30 30 True = Inr w'
          \<and> wheel_metrics.total_premium w' = 350
          \<and> wheel_metrics.total_days w' = 60
          \<and> wheel_metrics.capital_required w' = 9500)"
proof (intro conjI impI)
  assume w: "calculate_wheel_cycle_return s ps pp ck cp pd cd True = Inr w"
  note f = wheel_full_fields[OF w]
  show "calculate_put_return s ps pp pd 100 = Inr (wheel_metrics.put_phase w)"
    by (rule f(1))
  show "\<exists>c. wheel_metrics.call_phase w = Some c
             \<and> calculate_call_return ps ck cp (ps - pp) cd 100 = Inr c
             \<and> wheel_metrics.total_premium w
                 = put_metrics.premium_received (wheel_metrics.put_phase w)
                   + call_metrics.premium_received c"
    by (rule f(2))
  show "wheel_metrics.total_premium w = pp * 100 + cp * 100" by (rule f(3))
  show "wheel_metrics.total_days w = pd + cd" by (rule f(4))
  show "wheel_metrics.capital_required w = ps * 100" by (rule f(5))
  show "wheel_metrics.total_return_pct w
          = wheel_metrics.total_premium w / wheel_metrics.capital_required w * 100"
    by (rule f(7))
  { assume "0 < pd + cd"
    then show "\<exists>v. py_pow (1 + wheel_metrics.total_return_pct w / 100)
                    (365 / real_of_int (pd + cd)) = Inr v
                \<and> wheel_metrics.annualized_cycle_return w = py_mul (py_sub v 1) 100"
      using annualize_return_pos[OF _ f(8)] by simp }
  { assume "0 < pd + cd" and "0 \<le> 1 + wheel_metrics.total_return_pct w / 100"
    then show "wheel_metrics.annualized_cycle_return w
                  = PyFloat (((1 + wheel_metrics.total_return_pct w / 100)
                                powr (365 / real_of_int (pd + cd)) - 1) * 100)"
      using annualize_return_nonneg_base
              [of "pd + cd" "wheel_metrics.total_return_pct w"
                  "wheel_metrics.annualized_cycle_return w"] f(8)
      by (simp add: annualize_spec_def) }
  { assume "pd + cd \<le> 0"
    then show "wheel_metrics.annualized_cycle_return w = PyFloat 0"
      using annualize_return_nonpos[of "pd + cd" "wheel_metrics.total_return_pct w"] f(8)
      by simp }
next
  obtain p where p: "calculate_put_return 100 95 2 30 100 = Inr p"
    by (simp add: put_example)
  obtain c where c: "calculate_call_return 95 100 (3 / 2) (95 - 2) 30 100 = Inr c"
    using call_return_total
            [where cb = "95 - 2" and cs = 100 and s = 95 and k = 100 and p = "3 / 2"
               and d = 30]
    by (auto simp: not_overflows_small)
  obtain w' where w': "calculate_wheel_cycle_return 100 95 2 100 (3 / 2) 30 30 True = Inr w'"
    using wheel_full_total [OF p c] by (auto simp: not_overflows_small)
  note f = wheel_full_fields[OF w']
  from w' f(3) f(4) f(5)
  show "\<exists>w'. calculate_wheel_cycle_return 100 95 2 100 (3 / 2) 30 30 True = Inr w'
          \<and> wheel_metrics.total_premium w' = 350
          \<and> wheel_metrics.total_days w' = 60
          \<and> wheel_metrics.capital_required w' = 9500"
    by simp
qed

text \<open>
  The same cycle through the general statement: its call phase, its total premium, its
  return of \<open>70/19\<close> percent and the annualized value over 60 days; with both day
  counts 0 the annualized value is 0.
\<close>

theorem wheel_full_cycle_aggregates_witness:
  "calculate_wheel_cycle_return 100 95 2 100 (3 / 2) 30 30 True
     = Inr (projr (calculate_wheel_cycle_return 100 95 2 100 (3 / 2) 30 30 True))
   \<and> calculate_call_return 95 100 (3 / 2) (95 - 2) 30 100
     = Inr (the (wheel_metrics.call_phase
                  (projr (calculate_wheel_cycle_return 100 95 2 100 (3 / 2) 30 30 True))))
   \<and> wheel_metrics.total_premium
       (projr (calculate_wheel_cycle_return 100 95 2 100 (3 / 2) 30 30 True))
     = 2 * 100 + 3 / 2 * 100
   \<and> wheel_metrics.total_return_pct
       (projr (calculate_wheel_cycle_return 100 95 2 100 (3 / 2) 30 30 True)) = 70 / 19
   \<and> wheel_metrics.annualized_cycle_return
       (projr (calculate_wheel_cycle_return 100 95 2 100 (3 / 2) 30 30 True))
     = PyFloat (((1 + (70 / 19) / 100) powr (365 / 60) - 1) * 100)
   \<and> calculate_wheel_cycle_return 100 95 2 100 (3 / 2) 0 0 True
     = Inr (projr (calculate_wheel_cycle_return 100 95 2 100 (3 / 2) 0 0 True))
   \<and> wheel_metrics.annualized_cycle_return
       (projr (calculate_wheel_cycle_return 100 95 2 100 (3 / 2) 0 0 True)) = PyFloat 0"
proof -
  have a: "calculate_wheel_cycle_return 100 95 2 100 (3 / 2) 30 30 True
     = Inr (projr (calculate_wheel_cycle_return 100 95 2 100 (3 / 2) 30 30 True))"
    using wheel_full_cycle_aggregates
            [of 100 95 2 100 "3 / 2" 30 30
                "projr (calculate_wheel_cycle_return 100 95 2 100 (3 / 2) 30 30 True)",
             THEN conjunct2]
    by auto
  have b: "calculate_wheel_cycle_return 100 95 2 100 (3 / 2) 0 0 True
     = Inr (projr (calculate_wheel_cycle_return 100 95 2 100 (3 / 2) 0 0 True))"
  proof -
    obtain p where p: "calculate_put_return 100 95 2 0 100 = Inr p"
      using put_return_total [where k = 95 and cs = 100 and s = 100 and p = 2 and d = 0]
      by (auto simp: not_overflows_small)
    obtain c where c: "calculate_call_return 95 100 (3 / 2) (95 - 2) 0 100 = Inr c"
      using call_return_total
              [where cb = "95 - 2" and cs = 100 and s = 95 and k = 100 and p = "3 / 2"
                 and d = 0]
      by (auto simp: not_overflows_small)
    from wheel_full_total [OF p c] show ?thesis by auto
  qed
  from wheel_full_cycle_aggregates
         [of 100 95 2 100 "3 / 2" 30 30
             "projr (calculate_wheel_cycle_return 100 95 2 100 (3 / 2) 30 30 True)"]
       wheel_full_cycle_aggregates
         [of 100 95 2 100 "3 / 2" 0 0
             "projr (calculate_wheel_cycle_return 100 95 2 100 (3 / 2) 0 0 True)"]
       a b
  show ?thesis by auto
qed

text \<open>
  On doubles the sum of the scaled premiums is not the scaled sum of the premiums. For
  the premiums written \<^verbatim>\<open>0.1\<close> and \<^verbatim>\<open>0.2\<close>, with no days left, the cycle returns
  \<open>total_premium = 30\<close>, while \<open>(put_premium + call_premium) * 100\<close> is
  \<open>30 + 2^-48\<close> when computed on doubles, and differs from 30 over the reals too.
\<close>

theorem wheel_total_premium_not_distributed_counterexample:
  "\<not> isl (calculate_wheel_cycle_return_double 100 95 (3602879701896397 / 2 ^ 55) 100
            (3602879701896397 / 2 ^ 54) 0 0 True)
   \<and> wheel_metrics.total_premium
        (projr (calculate_wheel_cycle_return_double 100 95 (3602879701896397 / 2 ^ 55) 100
                 (3602879701896397 / 2 ^ 54) 0 0 True)) = 30
   \<and> double_mul (double_add (3602879701896397 / 2 ^ 55) (3602879701896397 / 2 ^ 54)) 100
        = 30 + 1 / 2 ^ 48
   \<and> (3602879701896397 / 2 ^ 55 + 3602879701896397 / 2 ^ 54) * 100 \<noteq> (30::real)"
proof -
  define A :: real where "A = 3602879701896397 / 2 ^ 55"
  define B :: real where "B = 3602879701896397 / 2 ^ 54"
  define V :: real where "V = 3338996911230157 / 2 ^ 45"
  define S :: real where "S = 1351079888211149 / 2 ^ 52"
  have cap: "double_mul 95 100 = 9500"
    unfolding double_mul_def
    by (subst round_double_eval [where e = 13]) (simp_all add: round_half_even_def Let_def)
  have pa: "double_mul A 100 = 10"
    unfolding double_mul_def A_def
    by (subst round_double_eval [where e = 3]) (simp_all add: round_half_even_def Let_def)
  have pb: "double_mul B 100 = 20"
    unfolding double_mul_def B_def
    by (subst round_double_eval [where e = 4]) (simp_all add: round_half_even_def Let_def)
  have cb: "double_sub 95 A = V"
    unfolding double_sub_def A_def V_def
    by (subst round_double_eval [where e = 6]) (simp_all add: round_half_even_def Let_def)
  have ci: "double_mul V 100 = 9490"
    unfolding double_mul_def V_def
    by (subst round_double_eval [where e = 13]) (simp_all add: round_half_even_def Let_def)
  have sum: "double_add 10 20 = 30"
    unfolding double_add_def
    by (subst round_double_eval [where e = 4]) (simp_all add: round_half_even_def Let_def)
  have ab: "double_add A B = S"
    unfolding double_add_def A_def B_def S_def
    by (subst round_double_eval [where e = "- 2"]) (simp_all add: round_half_even_def Let_def)
  have s100: "double_mul S 100 = 30 + 1 / 2 ^ 48"
    unfolding double_mul_def S_def
    by (subst round_double_eval [where e = 4]) (simp_all add: round_half_even_def Let_def)
  have nz1: "double_mul 95 100 \<noteq> 0" by (simp add: cap)
  have nz2: "double_mul V 100 \<noteq> 0" by (simp add: ci)
  have s1: "(100::real) \<noteq> 0" and s2: "(95::real) \<noteq> 0" by simp_all
  note p = put_return_double_expired [OF order_refl double_of_int_100 nz1 s1, of A]
  note c = call_return_double_expired [OF order_refl double_of_int_100 nz2 s2, of 100 B]
  have d0: "(0::int) + 0 \<le> 0" by simp
  note w = wheel_cycle_double_expired [OF p c [folded cb] d0 nz1]
  have tp: "wheel_metrics.total_premium
              (projr (calculate_wheel_cycle_return_double 100 95 A 100 B 0 0 True)) = 30"
    unfolding w by (simp add: pa pb sum)
  have ret: "\<not> isl (calculate_wheel_cycle_return_double 100 95 A 100 B 0 0 True)"
    unfolding w by simp
  have dbl: "double_mul (double_add A B) 100 = 30 + 1 / 2 ^ 48"
    unfolding ab by (rule s100)
  have ex: "(A + B) * 100 \<noteq> 30"
    unfolding A_def B_def by simp
  from ret tp dbl ex show ?thesis
    unfolding A_def B_def by blast
qed

subsection \<open>Capital gain of the covered call\<close>

text \<open>
  C5. Whenever \<^verbatim>\<open>calculate_call_return\<close> returns,
  \<open>potential_capital_gain = max(0, strike - cost_basis) * contract_size\<close> and
  \<open>total_return = premium_received + potential_capital_gain\<close>. The call
  \<open>(100, 105, 1.5, 98, 30)\<close> returns with premium 150, capital invested 9800, capital
  gain 700 and total return 850.
\<close>

theorem call_return_capital_gain:
  "(calculate_call_return s k p cb d cs = Inr r \<longrightarrow>
      call_metrics.potential_capital_gain r = max 0 (k - cb) * real_of_int cs
      \<and> call_metrics.total_return r
          = call_metrics.premium_received r + call_metrics.potential_capital_gain r)
   \<and> (\<exists>c. calculate_call_return 100 105 (3 / 2) 98 30 100 = Inr c
          \<and> call_metrics.premium_received c = 150
          \<and> call_metrics.capital_invested c = 9800
          \<and> call_metrics.potential_capital_gain c = 700
          \<and> call_metrics.total_return c = 850)"
proof (intro conjI impI)
  assume r: "calculate_call_return s k p cb d cs = Inr r"
  note f = call_return_fields[OF r]
  show "call_metrics.potential_capital_gain r = max 0 (k - cb) * real_of_int cs"
    using f(5) by (simp add: max_def)
  show "call_metrics.total_return r
          = call_metrics.premium_received r + call_metrics.potential_capital_gain r"
    using f(4) f(5) f(6) by simp
next
  show "\<exists>c. calculate_call_return 100 105 (3 / 2) 98 30 100 = Inr c
          \<and> call_metrics.premium_received c = 150
          \<and> call_metrics.capital_invested c = 9800
          \<and> call_metrics.potential_capital_gain c = 700
          \<and> call_metrics.total_return c = 850"
    by (simp add: call_example)
qed

text \<open>
  A call sold below its cost basis (strike 95, basis 98): the gain is floored at 0 and
  the total return is the premium alone.
\<close>

theorem call_return_capital_gain_witness:
  "calculate_call_return 100 95 (3 / 2) 98 30 100
     = Inr (projr (calculate_call_return 100 95 (3 / 2) 98 30 100))
   \<and> call_metrics.potential_capital_gain (projr (calculate_call_return 100 95 (3 / 2) 98 30 100)) = 0
   \<and> call_metrics.total_return (projr (calculate_call_return 100 95 (3 / 2) 98 30 100)) = 150"
proof -
  obtain c where c: "calculate_call_return 100 95 (3 / 2) 98 30 100 = Inr c"
    using call_return_total
            [where cb = 98 and cs = 100 and s = 100 and k = 95 and p = "3 / 2" and d = 30]
    by (auto simp: not_overflows_small)
  from call_return_capital_gain [of 100 95 "3 / 2" 98 30 100 c] c
       call_return_fields(4) [OF c]
  show ?thesis by simp
qed

subsection \<open>Probability of profit at expiration\<close>

text \<open>
  C6. With no days left, \<^verbatim>\<open>calculate_probability_of_profit\<close> returns exactly 1.0 when
  the stock price is at or above the breakeven price and exactly 0.0 otherwise,
  whatever the implied volatility.
\<close>

theorem probability_of_profit_boundary:
  "dte \<le> 0 \<Longrightarrow>
   calculate_probability_of_profit norm_cdf stock_price breakeven implied_volatility dte
     = (if stock_price \<ge> breakeven then 1 else 0)"
  by (simp add: calculate_probability_of_profit_def)

text \<open>
  Both sides of the boundary at zero days, for the breakeven price 93.
\<close>

theorem probability_of_profit_boundary_witness:
  "(0::int) \<le> 0
   \<and> calculate_probability_of_profit (\<lambda>z. 1 / 2) 100 93 (3 / 10) 0 = 1
   \<and> calculate_probability_of_profit (\<lambda>z. 1 / 2) 90 93 (3 / 10) 0 = 0"
  using probability_of_profit_boundary [of 0 "\<lambda>z. 1 / 2" 100 93 "3 / 10"]
        probability_of_profit_boundary [of 0 "\<lambda>z. 1 / 2" 90 93 "3 / 10"]
  by simp

subsection \<open>Monotonicity in the premium\<close>




subsection \<open>The put-only cycle\<close>

text \<open>
  C8. Without assignment, \<^verbatim>\<open>calculate_wheel_cycle_return\<close> returns exactly when its put
  phase does, and the result mirrors the put phase: \<open>total_premium\<close> is its
  \<open>premium_received\<close>, \<open>total_return_pct\<close> its \<open>return_pct\<close>,
  \<open>annualized_cycle_return\<close> its \<open>annualized_return\<close>, \<open>total_days\<close> is \<open>put_dte\<close> and
  \<open>capital_required\<close> its \<open>capital_required\<close>; there is no call phase. An error of the
  put phase is the error of the cycle.
\<close>

theorem wheel_put_only_mirrors_put_phase:
  "(calculate_put_return s ps pp pd 100 = Inr p \<longrightarrow>
      (\<exists>w. calculate_wheel_cycle_return s ps pp ck cp pd cd False = Inr w
         \<and> wheel_metrics.put_phase w = p
         \<and> wheel_metrics.call_phase w = None
         \<and> wheel_metrics.total_premium w = put_metrics.premium_received p
         \<and> wheel_metrics.total_return_pct w = put_metrics.return_pct p
         \<and> wheel_metrics.annualized_cycle_return w = put_metrics.annualized_return p
         \<and> wheel_metrics.total_days w = pd
         \<and> wheel_metrics.capital_required w = put_metrics.capital_required p))
   \<and> (calculate_put_return s ps pp pd 100 = Inl e \<longrightarrow>
        calculate_wheel_cycle_return s ps pp ck cp pd cd False = Inl e)"
  by (simp add: wheel_unfold)

text \<open>
  The put-only cycle on the inputs of the test suite, and on a zero strike, where the
  put phase and the cycle raise.
\<close>

theorem wheel_put_only_mirrors_put_phase_witness:
  "(\<exists>w. calculate_wheel_cycle_return 100 95 2 100 (3 / 2) 30 30 False = Inr w
      \<and> wheel_metrics.call_phase w = None
      \<and> wheel_metrics.total_premium w = 200
      \<and> wheel_metrics.total_return_pct w = 40 / 19
      \<and> wheel_metrics.annualized_cycle_return w = PyFloat (annualize_spec (40 / 19) 30)
      \<and> wheel_metrics.total_days w = 30
      \<and> wheel_metrics.capital_required w = 9500)
   \<and> calculate_put_return 100 0 2 30 100 = Inl ZeroDivisionError
   \<and> calculate_wheel_cycle_return 100 0 2 100 (3 / 2) 30 30 False = Inl ZeroDivisionError"
proof -
  have e: "calculate_put_return 100 0 2 30 100 = Inl ZeroDivisionError"
    by (simp add: put_return_zero_capital not_overflows_small)
  from wheel_put_only_mirrors_put_phase
          [of 100 95 2 30 "projr (calculate_put_return 100 95 2 30 100)" 100 "3 / 2" 30
              ZeroDivisionError]
       wheel_put_only_mirrors_put_phase
          [of 100 0 2 30 "projr (calculate_put_return 100 95 2 30 100)" 100 "3 / 2" 30
              ZeroDivisionError]
       e
  show ?thesis
    by (auto simp: put_example)
qed

subsection \<open>Premium return and total return of the covered call\<close>




subsection \<open>Independence of the cycle aggregates\<close>

text \<open>
  C10. With assignment assumed, two cycles that differ only in stock price and call
  strike, and both return, have the same \<open>total_premium\<close>, \<open>total_return_pct\<close>,
  \<open>annualized_cycle_return\<close>, \<open>total_days\<close> and \<open>capital_required\<close>.
\<close>

theorem wheel_aggregates_independent_of_stock_price_and_call_strike:
  assumes "calculate_wheel_cycle_return s1 ps pp ck1 cp pd cd True = Inr w1"
      and "calculate_wheel_cycle_return s2 ps pp ck2 cp pd cd True = Inr w2"
  shows "wheel_metrics.total_premium w1 = wheel_metrics.total_premium w2
         \<and> wheel_metrics.total_return_pct w1 = wheel_metrics.total_return_pct w2
         \<and> wheel_metrics.annualized_cycle_return w1 = wheel_metrics.annualized_cycle_return w2
         \<and> wheel_metrics.total_days w1 = wheel_metrics.total_days w2
         \<and> wheel_metrics.capital_required w1 = wheel_metrics.capital_required w2"
proof -
  note f1 = wheel_full_fields[OF assms(1)] and f2 = wheel_full_fields[OF assms(2)]
  have tp: "wheel_metrics.total_premium w1 = wheel_metrics.total_premium w2"
    by (simp only: f1(3) f2(3))
  have cr: "wheel_metrics.capital_required w1 = wheel_metrics.capital_required w2"
    by (simp only: f1(5) f2(5))
  have rp: "wheel_metrics.total_return_pct w1 = wheel_metrics.total_return_pct w2"
    by (simp only: f1(7) f2(7) tp cr)
  have "Inr (wheel_metrics.annualized_cycle_return w1)
          = (Inr (wheel_metrics.annualized_cycle_return w2) :: py_error + py_num)"
    using f1(8) f2(8) unfolding rp by simp
  then have an: "wheel_metrics.annualized_cycle_return w1
                   = wheel_metrics.annualized_cycle_return w2"
    by simp
  have td: "wheel_metrics.total_days w1 = wheel_metrics.total_days w2"
    by (simp only: f1(4) f2(4))
  from tp rp an td cr show ?thesis by simp
qed

text \<open>
  The cycle of the test suite against the same cycle at stock price 90 and call
  strike 105.
\<close>

theorem wheel_aggregates_independent_of_stock_price_and_call_strike_witness:
  "calculate_wheel_cycle_return 100 95 2 100 (3 / 2) 30 30 True
     = Inr (projr (calculate_wheel_cycle_return 100 95 2 100 (3 / 2) 30 30 True))
   \<and> calculate_wheel_cycle_return 90 95 2 105 (3 / 2) 30 30 True
     = Inr (projr (calculate_wheel_cycle_return 90 95 2 105 (3 / 2) 30 30 True))
   \<and> wheel_metrics.total_premium (projr (calculate_wheel_cycle_return 100 95 2 100 (3 / 2) 30 30 True))
     = wheel_metrics.total_premium (projr (calculate_wheel_cycle_return 90 95 2 105 (3 / 2) 30 30 True))
   \<and> wheel_metrics.total_return_pct (projr (calculate_wheel_cycle_return 100 95 2 100 (3 / 2) 30 30 True))
     = wheel_metrics.total_return_pct (projr (calculate_wheel_cycle_return 90 95 2 105 (3 / 2) 30 30 True))
   \<and> wheel_metrics.annualized_cycle_return (projr (calculate_wheel_cycle_return 100 95 2 100 (3 / 2) 30 30 True))
     = wheel_metrics.annualized_cycle_return (projr (calculate_wheel_cycle_return 90 95 2 105 (3 / 2) 30 30 True))
   \<and> wheel_metrics.total_days (projr (calculate_wheel_cycle_return 100 95 2 100 (3 / 2) 30 30 True))
     = wheel_metrics.total_days (projr (calculate_wheel_cycle_return 90 95 2 105 (3 / 2) 30 30 True))
   \<and> wheel_metrics.capital_required (projr (calculate_wheel_cycle_return 100 95 2 100 (3 / 2) 30 30 True))
     = wheel_metrics.capital_required (projr (calculate_wheel_cycle_return 90 95 2 105 (3 / 2) 30 30 True))"
proof -
  have a: "calculate_wheel_cycle_return 100 95 2 100 (3 / 2) 30 30 True
     = Inr (projr (calculate_wheel_cycle_return 100 95 2 100 (3 / 2) 30 30 True))"
  proof -
    obtain p where p: "calculate_put_return 100 95 2 30 100 = Inr p"
      using put_return_total [where k = 95 and cs = 100 and s = 100 and p = 2 and d = 30]
      by (auto simp: not_overflows_small)
    obtain c where c: "calculate_call_return 95 100 (3 / 2) (95 - 2) 30 100 = Inr c"
      using call_return_total
              [where cb = "95 - 2" and cs = 100 and s = 95 and k = 100 and p = "3 / 2"
                 and d = 30]
      by (auto simp: not_overflows_small)
    from wheel_full_total [OF p c] show ?thesis
      by (auto simp: not_overflows_small)
  qed
  have b: "calculate_wheel_cycle_return 90 95 2 105 (3 / 2) 30 30 True
     = Inr (projr (calculate_wheel_cycle_return 90 95 2 105 (3 / 2) 30 30 True))"
  proof -
    obtain p where p: "calculate_put_return 90 95 2 30 100 = Inr p"
      using put_return_total [where k = 95 and cs = 100 and s = 90 and p = 2 and d = 30]
      by (auto simp: not_overflows_small)
    obtain c where c: "calculate_call_return 95 105 (3 / 2) (95 - 2) 30 100 = Inr c"
      using call_return_total
              [where cb = "95 - 2" and cs = 100 and s = 95 and k = 105 and p = "3 / 2"
                 and d = 30]
      by (auto simp: not_overflows_small)
    from wheel_full_total [OF p c] show ?thesis
      by (auto simp: not_overflows_small)
  qed
  from wheel_aggregates_independent_of_stock_price_and_call_strike [OF a b] a b
  show ?thesis by simp
qed

end
